theory Spec2Isabelle
  imports Complex_Main "HOL-Library.Sublist"
begin

section \<open>Strings\<close>

text \<open>
  JavaScript strings are modelled as \<open>string\<close> (a list of 8-bit characters), read as
  ASCII. The white space of \<open>String.prototype.trim\<close> and of the regular expression class
  \<open>\s\<close> is therefore the ASCII part of the ECMAScript set: tab, line feed, vertical tab,
  form feed, carriage return and space. The digit class \<open>\d\<close> is \<open>0\<close> to \<open>9\<close>.
\<close>

abbreviation NL :: string where
  "NL \<equiv> [CHR 0x0A]"

definition is_ws :: "char \<Rightarrow> bool" where
  "is_ws c = (c \<in> set [CHR 0x09, CHR 0x0A, CHR 0x0B, CHR 0x0C, CHR 0x0D, CHR '' ''])"

definition is_digit :: "char \<Rightarrow> bool" where
  "is_digit c = (c \<in> set ''0123456789'')"

text \<open>\<open>s.trim()\<close>\<close>

definition trim :: "string \<Rightarrow> string" where
  "trim s = rev (dropWhile is_ws (rev (dropWhile is_ws s)))"

text \<open>\<open>s.includes(p)\<close>: \<open>p\<close> occurs in \<open>s\<close> as a contiguous substring.\<close>

fun str_includes :: "string \<Rightarrow> string \<Rightarrow> bool" where
  "str_includes p [] = (p = [])"
| "str_includes p (c # cs) = (prefix p (c # cs) \<or> str_includes p cs)"

text \<open>\<open>s.split(c)\<close> for a one-character separator: always at least one piece.\<close>

fun split_on :: "char \<Rightarrow> string \<Rightarrow> string list" where
  "split_on sep [] = [[]]"
| "split_on sep (c # cs) =
     (if c = sep then [] # split_on sep cs
      else (case split_on sep cs of
              [] \<Rightarrow> [[c]]
            | p # ps \<Rightarrow> (c # p) # ps))"

text \<open>\<open>s.padStart(n, c)\<close> for a one-character filler.\<close>

definition padStart :: "nat \<Rightarrow> char \<Rightarrow> string \<Rightarrow> string" where
  "padStart n c s = replicate (n - length s) c @ s"

text \<open>Decimal digits of a natural number, and the value of a string of digits.\<close>

definition digit_char :: "nat \<Rightarrow> char" where
  "digit_char n = ''0123456789'' ! (n mod 10)"

fun dec :: "nat \<Rightarrow> string" where
  "dec n = (if n < 10 then [digit_char n] else dec (n div 10) @ [digit_char (n mod 10)])"

declare dec.simps [simp del]

definition digit_val :: "char \<Rightarrow> nat" where
  "digit_val c = of_char c - 48"

definition digits_val :: "string \<Rightarrow> nat" where
  "digits_val ds = foldl (\<lambda>a c. 10 * a + digit_val c) 0 ds"

section \<open>Numbers\<close>

text \<open>
  A JavaScript Number is \<open>NaN\<close>, an infinity or a finite value. Finite values are kept
  exact, as rationals: the rounding of a decimal literal to the nearest binary64 value, the
  overflow of a huge literal to \<open>Infinity\<close> and the sign of zero are not modelled.
\<close>

datatype number = NaN | PosInf | NegInf | Fin rat

definition negate :: "number \<Rightarrow> number" where
  "negate x = (case x of NaN \<Rightarrow> NaN | PosInf \<Rightarrow> NegInf | NegInf \<Rightarrow> PosInf | Fin q \<Rightarrow> Fin (- q))"

text \<open>
  \<open>parseFloat(s)\<close>: leading white space is skipped, then the longest prefix that is a
  \<open>StrDecimalLiteral\<close> (sign, \<open>Infinity\<close> or digits with an optional fraction and an optional
  exponent) is converted; when there is no such prefix the result is \<open>NaN\<close>.
\<close>

definition exponent_part :: "string \<Rightarrow> int" where
  "exponent_part r =
     (case r of
        [] \<Rightarrow> 0
      | c # r1 \<Rightarrow>
          if c = CHR ''e'' \<or> c = CHR ''E'' then
            (case r1 of
               [] \<Rightarrow> 0
             | s # r2 \<Rightarrow>
                 if s = CHR ''-'' then
                   (if takeWhile is_digit r2 = [] then 0
                    else - int (digits_val (takeWhile is_digit r2)))
                 else if s = CHR ''+'' then int (digits_val (takeWhile is_digit r2))
                 else int (digits_val (takeWhile is_digit r1)))
          else 0)"

definition scale10 :: "rat \<Rightarrow> int \<Rightarrow> rat" where
  "scale10 q e = (if 0 \<le> e then q * 10 ^ nat e else q / 10 ^ nat (- e))"

definition parse_unsigned :: "string \<Rightarrow> number" where
  "parse_unsigned r =
     (if prefix ''Infinity'' r then PosInf
      else
        let d1 = takeWhile is_digit r;
            r1 = dropWhile is_digit r;
            dot = (r1 \<noteq> [] \<and> hd r1 = CHR ''.'');
            d2 = (if dot then takeWhile is_digit (tl r1) else []);
            r2 = (if dot then dropWhile is_digit (tl r1) else r1)
        in if d1 = [] \<and> d2 = [] then NaN
           else Fin (scale10
                  (of_nat (digits_val d1) + of_nat (digits_val d2) / 10 ^ length d2)
                  (exponent_part r2)))"

definition parseFloat :: "string \<Rightarrow> number" where
  "parseFloat s =
     (let t = dropWhile is_ws s in
      if t \<noteq> [] \<and> hd t = CHR ''-'' then negate (parse_unsigned (tl t))
      else if t \<noteq> [] \<and> hd t = CHR ''+'' then parse_unsigned (tl t)
      else parse_unsigned t)"

text \<open>
  \<open>x / k\<close> and \<open>x % k\<close> for a positive finite constant \<open>k\<close> (the code divides by 60 only).
  The remainder takes the sign of the dividend; the remainder of an infinity is \<open>NaN\<close>.
\<close>

definition js_div :: "number \<Rightarrow> rat \<Rightarrow> number" where
  "js_div x k = (case x of Fin q \<Rightarrow> Fin (q / k) | _ \<Rightarrow> x)"

definition js_rem :: "number \<Rightarrow> rat \<Rightarrow> number" where
  "js_rem x k =
     (case x of
        Fin q \<Rightarrow>
          Fin (if 0 \<le> q then q - k * of_int \<lfloor>q / k\<rfloor>
               else - ((- q) - k * of_int \<lfloor>(- q) / k\<rfloor>))
      | _ \<Rightarrow> NaN)"

text \<open>\<open>Math.floor(x)\<close>: the result is \<open>NaN\<close>, an infinity or an integer.\<close>

datatype integral = INaN | IPosInf | INegInf | IInt int

definition Math_floor :: "number \<Rightarrow> integral" where
  "Math_floor x =
     (case x of NaN \<Rightarrow> INaN | PosInf \<Rightarrow> IPosInf | NegInf \<Rightarrow> INegInf | Fin q \<Rightarrow> IInt \<lfloor>q\<rfloor>)"

text \<open>
  \<open>Number.prototype.toString\<close> on such a value, in plain decimal (JavaScript switches to
  exponent notation from \<open>1e21\<close> on).
\<close>

definition toString :: "integral \<Rightarrow> string" where
  "toString x =
     (case x of
        INaN \<Rightarrow> ''NaN''
      | IPosInf \<Rightarrow> ''Infinity''
      | INegInf \<Rightarrow> ''-Infinity''
      | IInt i \<Rightarrow> (if i < 0 then ''-'' @ dec (nat (- i)) else dec (nat i)))"

section \<open>Transcript entries and the plain-text parser\<close>

text \<open>\<open>interface TranscriptEntry { text: string; duration: number; offset: number }\<close>\<close>

record transcript_entry =
  etext :: string
  duration :: number
  offset :: number

text \<open>
  The regular expression \<open>/[\[\(](\d{1,2}):(\d{2})[\]\)]/\<close>, matched at the start of a
  string: an opening bracket or parenthesis, two digits or else one (the quantifier is
  greedy), a colon, two digits, a closing bracket or parenthesis. The result is the two
  captured groups and the rest of the string after the match.
\<close>

definition is_open :: "char \<Rightarrow> bool" where
  "is_open c = (c = CHR ''['' \<or> c = CHR ''('')"

definition is_close :: "char \<Rightarrow> bool" where
  "is_close c = (c = CHR '']'' \<or> c = CHR '')'')"

fun match_tail :: "string \<Rightarrow> (string \<times> string) option" where
  "match_tail (c # s1 # s2 # cl # rest) =
     (if c = CHR '':'' \<and> is_digit s1 \<and> is_digit s2 \<and> is_close cl
      then Some ([s1, s2], rest) else None)"
| "match_tail _ = None"

fun match_minutes :: "string \<Rightarrow> (string \<times> string \<times> string) option" where
  "match_minutes (d1 # d2 # r) =
     (if is_digit d1 \<and> is_digit d2 then
        (case match_tail r of
           Some (ss, rest) \<Rightarrow> Some ([d1, d2], ss, rest)
         | None \<Rightarrow>
             (case match_tail (d2 # r) of
                Some (ss, rest) \<Rightarrow> Some ([d1], ss, rest)
              | None \<Rightarrow> None))
      else if is_digit d1 then
        (case match_tail (d2 # r) of
           Some (ss, rest) \<Rightarrow> Some ([d1], ss, rest)
         | None \<Rightarrow> None)
      else None)"
| "match_minutes _ = None"

fun match_ts_at :: "string \<Rightarrow> (string \<times> string \<times> string) option" where
  "match_ts_at [] = None"
| "match_ts_at (c # r) = (if is_open c then match_minutes r else None)"

text \<open>
  \<open>line.match(re)\<close> without the global flag: the leftmost match. The result is the text
  before the match, the two groups, and the text after the match.
\<close>

fun find_ts :: "string \<Rightarrow> (string \<times> string \<times> string \<times> string) option" where
  "find_ts [] = None"
| "find_ts (c # cs) =
     (case match_ts_at (c # cs) of
        Some (mm, ss, rest) \<Rightarrow> Some ([], mm, ss, rest)
      | None \<Rightarrow>
          (case find_ts cs of
             Some (before, mm, ss, rest) \<Rightarrow> Some (c # before, mm, ss, rest)
           | None \<Rightarrow> None))"

text \<open>
  \<open>line.replace(/[\[\(]\d{1,2}:\d{2}[\]\)]\s*/, '')\<close>: the same pattern followed by a greedy
  run of white space, so its leftmost match starts where the match above starts; the match
  is removed once.
\<close>

definition replace_ts :: "string \<Rightarrow> string" where
  "replace_ts line =
     (case find_ts line of
        None \<Rightarrow> line
      | Some (before, mm, ss, rest) \<Rightarrow> before @ dropWhile is_ws rest)"

text \<open>\<open>parseInt\<close> on a captured group, which is one or two decimal digits.\<close>

definition parseInt :: "string \<Rightarrow> nat" where
  "parseInt ds = digits_val ds"

text \<open>The body of the loop of \<open>parseTranscriptText\<close>, for one line.\<close>

definition parse_line :: "string \<Rightarrow> transcript_entry option" where
  "parse_line line =
     (case find_ts line of
        None \<Rightarrow> None
      | Some (before, mm, ss, rest) \<Rightarrow>
          let minutes = parseInt mm;
              seconds = parseInt ss;
              offs = minutes * 60 + seconds;
              textContent = trim (replace_ts line)
          in if textContent \<noteq> []
             then Some \<lparr>etext = textContent, duration = Fin 0, offset = Fin (of_nat offs)\<rparr>
             else None)"

fun parse_lines :: "string list \<Rightarrow> transcript_entry list" where
  "parse_lines [] = []"
| "parse_lines (line # ls) =
     (case parse_line line of
        Some e \<Rightarrow> e # parse_lines ls
      | None \<Rightarrow> parse_lines ls)"

section \<open>The XML parser\<close>

text \<open>
  \<open>DOMParser.parseFromString\<close> belongs to the browser; the parsers take it as a parameter
  that maps a payload to the root element of the parsed document. The document is a tree
  of elements (tag name, attributes, children) and text nodes.
\<close>

datatype xml_node = Element string "(string \<times> string) list" "xml_node list" | TextNode string

text \<open>\<open>getElementsByTagName(t)\<close>: the elements with that tag name, in document order.\<close>

fun getElementsByTagName :: "string \<Rightarrow> xml_node \<Rightarrow> xml_node list" where
  "getElementsByTagName t (TextNode s) = []"
| "getElementsByTagName t (Element n attrs kids) =
     (if n = t then [Element n attrs kids] else [])
     @ concat (map (getElementsByTagName t) kids)"

fun textContent :: "xml_node \<Rightarrow> string" where
  "textContent (TextNode s) = s"
| "textContent (Element n attrs kids) = concat (map textContent kids)"

fun getAttribute :: "string \<Rightarrow> xml_node \<Rightarrow> string option" where
  "getAttribute a (TextNode s) = None"
| "getAttribute a (Element n attrs kids) = map_of attrs a"

text \<open>\<open>v || d\<close> for a string that may be \<open>null\<close>: the default replaces \<open>null\<close> and \<open>""\<close>.\<close>

definition or_default :: "string option \<Rightarrow> string \<Rightarrow> string" where
  "or_default v d = (case v of None \<Rightarrow> d | Some s \<Rightarrow> if s = [] then d else s)"

text \<open>The body of the loop of \<open>parseTranscriptXML\<close>, for one element.\<close>

definition entry_of_element :: "xml_node \<Rightarrow> transcript_entry" where
  "entry_of_element element =
     (let start = parseFloat (or_default (getAttribute ''start'' element) ''0'');
          dur = parseFloat (or_default (getAttribute ''dur'' element) ''0'')
      in \<lparr>etext = or_default (Some (textContent element)) [], duration = dur, offset = start\<rparr>)"

text \<open>
  \<open>parseTranscriptXML\<close>; the same function is written out in the controller, in the chat
  screen and in the player screen.
\<close>

definition parseTranscriptXML :: "(string \<Rightarrow> xml_node) \<Rightarrow> string \<Rightarrow> transcript_entry list" where
  "parseTranscriptXML parseFromString xmlText =
     map entry_of_element (getElementsByTagName ''text'' (parseFromString xmlText))"

text \<open>\<open>parseTranscriptText\<close>, written out in the controller and in the chat screen.\<close>

definition parseTranscriptText :: "(string \<Rightarrow> xml_node) \<Rightarrow> string \<Rightarrow> transcript_entry list" where
  "parseTranscriptText parseFromString txt =
     (if str_includes ''<transcript>'' txt then parseTranscriptXML parseFromString txt
      else parse_lines (split_on (CHR 0x0A) txt))"

section \<open>Videos, notifications, storage\<close>

record video_data =
  videoId :: string
  title :: string
  thumbnail :: string
  description :: string
  summary :: "string option"

record toast =
  toast_title :: string
  toast_description :: string
  destructive :: bool

type_synonym storage = "string \<rightharpoonup> string"

section \<open>The player screen: time stamps and the exported notes\<close>

definition formatTime :: "number \<Rightarrow> string" where
  "formatTime seconds =
     (let minutes = Math_floor (js_div seconds 60);
          remainingSeconds = Math_floor (js_rem seconds 60)
      in toString minutes @ '':'' @ padStart 2 (CHR ''0'') (toString remainingSeconds))"

text \<open>The callback of \<open>transcript.forEach\<close> in \<open>createNoteContent\<close>.\<close>

definition append_entry :: "string \<Rightarrow> transcript_entry \<Rightarrow> string" where
  "append_entry content entry =
     (let minutes = Math_floor (js_div (offset entry) 60);
          seconds = Math_floor (js_rem (offset entry) 60);
          timestamp = toString minutes @ '':'' @ padStart 2 (CHR ''0'') (toString seconds)
      in content @ ''['' @ timestamp @ ''] '' @ etext entry @ NL)"

definition rule_line :: string where
  "rule_line = ''================================''"

text \<open>
  \<open>createNoteContent\<close>; the formatted current date comes from the browser and is a
  parameter.
\<close>

definition createNoteContent ::
  "video_data \<Rightarrow> string \<Rightarrow> transcript_entry list \<Rightarrow> string \<Rightarrow> string" where
  "createNoteContent video notes transcript currentDate =
     (let videoUrl = ''https://www.youtube.com/watch?v='' @ videoId video;
          content0 = ''NOTES ON YOUTUBE VIDEO'' @ NL @ rule_line @ NL @ NL
            @ ''Video Title: '' @ title video @ NL
            @ ''Video URL: '' @ videoUrl @ NL
            @ ''Date Notes Taken: '' @ currentDate @ NL @ NL
            @ rule_line @ NL @ NL;
          content1 = (if trim notes \<noteq> []
            then content0 @ ''YOUR NOTES:'' @ NL @ notes @ NL @ NL @ rule_line @ NL @ NL
            else content0);
          content2 = (if length transcript > 0
            then foldl append_entry (content1 @ ''VIDEO TRANSCRIPT:'' @ NL) transcript
                 @ NL @ rule_line @ NL
            else content1)
      in content2 @ ''Generated by PrivateTube AI'')"

section \<open>The network\<close>

text \<open>
  An awaited promise either rejects with an error message or resolves. A response has a
  status and a body whose reading is awaited in turn. The remote endpoints and the
  browser's XML parser are the parameters of the model.
\<close>

datatype 'a awaited = Rejected string | Resolved 'a

record 'a response =
  status :: nat
  body :: "'a awaited"

definition ok :: "'a response \<Rightarrow> bool" where
  "ok r = (200 \<le> status r \<and> status r \<le> 299)"

text \<open>
  The reply of the generative endpoint: \<open>reply_text\<close> is what \<open>response.text()\<close> gives,
  \<open>reply_json\<close> what \<open>response.json()\<close> followed by
  \<open>data.candidates?.[0]?.content?.parts?.[0]?.text\<close> gives.
\<close>

record gemini_reply =
  reply_status :: nat
  reply_text :: "string awaited"
  reply_json :: "string option awaited"

record network =
  captionsList :: "string \<Rightarrow> string \<Rightarrow> string list option response awaited"
  captionsContent :: "string \<Rightarrow> string \<Rightarrow> string response awaited"
  timedtext :: "string \<Rightarrow> string response awaited"
  generateContent :: "string \<Rightarrow> string \<Rightarrow> gemini_reply awaited"
  parseFromString :: "string \<Rightarrow> xml_node"

text \<open>The retrieval methods, as they are recorded in the log of requests.\<close>

datatype retrieval = CaptionList | CaptionContent | TimedText | PlayerEmbed

text \<open>
  Method 1, the body of the \<open>try\<close> block that queries the caption listing and then the
  first track's content; the block is the same in \<open>loadTranscript\<close> and in
  \<open>handleChatWithVideo\<close>. It ends with a parsed transcript, without one, or by throwing.
  \<open>captionsList\<close> gives the \<open>id\<close>s of \<open>captionsData.items\<close>, \<open>None\<close> when there is no
  \<open>items\<close>.
\<close>

datatype caption_outcome = Loaded "transcript_entry list" | NotLoaded | Threw string

definition caption_api :: "network \<Rightarrow> string \<Rightarrow> string \<Rightarrow> retrieval list \<times> caption_outcome" where
  "caption_api N key vid =
     (case captionsList N vid key of
        Rejected e \<Rightarrow> ([CaptionList], Threw e)
      | Resolved response \<Rightarrow>
          if ok response then
            (case body response of
               Rejected e \<Rightarrow> ([CaptionList], Threw e)
             | Resolved items \<Rightarrow>
                 (case items of
                    Some (captionId # _) \<Rightarrow>
                      (case captionsContent N captionId key of
                         Rejected e \<Rightarrow> ([CaptionList, CaptionContent], Threw e)
                       | Resolved transcriptResponse \<Rightarrow>
                           if ok transcriptResponse then
                             (case body transcriptResponse of
                                Rejected e \<Rightarrow> ([CaptionList, CaptionContent], Threw e)
                              | Resolved transcriptText \<Rightarrow>
                                  ([CaptionList, CaptionContent],
                                   Loaded (parseTranscriptText (parseFromString N) transcriptText)))
                           else ([CaptionList, CaptionContent], NotLoaded))
                  | _ \<Rightarrow> ([CaptionList], NotLoaded)))
          else ([CaptionList], NotLoaded))"

section \<open>The chat screen\<close>

text \<open>
  Notifications shown and requests issued are effects; they are kept as logs, in the order
  in which they happen, at the base of every component's state.
\<close>

record effects =
  toasts :: "toast list"
  fetched :: "retrieval list"

datatype sender = User | Ai

record message =
  msg_id :: string
  content :: string
  sender :: sender
  timestamp :: nat

text \<open>
  A request to the generative endpoint: its JSON body is
  \<open>{contents: [{parts: [{text: prompt}]}]}\<close> and holds nothing but the prompt.
\<close>

record gemini_request =
  url :: string
  prompt_text :: string

record chat_state = effects +
  messages :: "message list"
  input :: string
  c_isLoading :: bool
  c_isLoadingTranscript :: bool
  currentTranscript :: "transcript_entry list"
  sent :: "gemini_request list"

abbreviation DQ :: string where
  "DQ \<equiv> [CHR 0x22]"

definition welcome_with_transcript :: "video_data \<Rightarrow> string" where
  "welcome_with_transcript video =
     ''Hello! I'm ready to discuss '' @ DQ @ title video @ DQ
     @ ''. I now have access to the video transcript and can answer detailed questions about the content.''"

text \<open>\<open>prev.map(msg => msg.id === "welcome" ? {...msg, content: ...} : msg)\<close>\<close>

definition update_welcome :: "video_data \<Rightarrow> message list \<Rightarrow> message list" where
  "update_welcome video prev =
     map (\<lambda>msg. if msg_id msg = ''welcome''
                then msg\<lparr>content := welcome_with_transcript video\<rparr> else msg) prev"

text \<open>The state of a chat screen that is mounted with the props \<open>video\<close> and \<open>transcript\<close>.\<close>

definition chat_mount :: "video_data \<Rightarrow> transcript_entry list \<Rightarrow> nat \<Rightarrow> chat_state" where
  "chat_mount video transcript now =
     \<lparr>toasts = [], fetched = [],
      messages = [\<lparr>msg_id = ''welcome'',
        content = ''Hello! I'm ready to discuss '' @ DQ @ title video @ DQ @ ''. ''
          @ (if length transcript > 0
             then ''I have access to the video transcript and can answer detailed questions about the content.''
             else ''I can answer general questions about this video based on its title and description.''),
        sender = Ai, timestamp = now\<rparr>],
      input = [], c_isLoading = False, c_isLoadingTranscript = False,
      currentTranscript = transcript, sent = []\<rparr>"

text \<open>The effect that follows a change of the \<open>transcript\<close> prop.\<close>

definition sync_transcript :: "video_data \<Rightarrow> transcript_entry list \<Rightarrow> chat_state \<Rightarrow> chat_state" where
  "sync_transcript video transcript st =
     (if length transcript > 0
      then st\<lparr>currentTranscript := transcript, messages := update_welcome video (messages st)\<rparr>
      else st)"






text \<open>Building the prompt in \<open>sendMessage\<close>.\<close>

fun join :: "string \<Rightarrow> string list \<Rightarrow> string" where
  "join sep [] = []"
| "join sep [x] = x"
| "join sep (x # y # ys) = x @ sep @ join sep (y # ys)"

definition base_context :: "video_data \<Rightarrow> string" where
  "base_context video =
     ''YouTube Video: '' @ DQ @ title video @ DQ @ NL @ ''Description: '' @ description video"

definition build_context :: "video_data \<Rightarrow> transcript_entry list \<Rightarrow> string" where
  "build_context video transcript =
     (if length transcript > 0
      then base_context video @ NL @ NL @ ''Video Transcript: '' @ join '' '' (map etext transcript)
      else base_context video)"

definition build_prompt :: "string \<Rightarrow> string \<Rightarrow> string" where
  "build_prompt context question =
     ''You are an AI assistant helping someone understand a YouTube video. '' @ NL @ NL
     @ ''Context:'' @ NL @ context @ NL @ NL
     @ ''User Question: '' @ question @ NL @ NL
     @ ''Please provide a helpful, accurate response based on the video content. If the question is about specific details and you have transcript access, use that information. If not, answer based on the title and description. Be conversational and helpful.''"

definition gemini_url :: "string \<Rightarrow> string" where
  "gemini_url key =
     ''https://generativelanguage.googleapis.com/v1beta/models/gemini-1.5-flash:generateContent?key='' @ key"

text \<open>The chain of comparisons on \<open>response.status\<close>.\<close>

definition status_message :: "nat \<Rightarrow> string" where
  "status_message st =
     (if st = 400 then ''Invalid request to Gemini API. Please check your API key format.''
      else if st = 401 then ''Unauthorized. Your Gemini API key is invalid or expired.''
      else if st = 403 then ''Access denied. Your Gemini API key may not have the required permissions.''
      else if st = 429 then ''Rate limit exceeded. Please wait a moment and try again.''
      else if st = 500 then ''Gemini API server error. Please try again later.''
      else ''Failed to get AI response'')"

definition status_error :: "nat \<Rightarrow> string" where
  "status_error st = status_message st @ '' (Status: '' @ dec st @ '')''"

text \<open>
  The \<open>catch\<close> block of \<open>sendMessage\<close>: everything thrown inside the \<open>try\<close> block is an
  \<open>Error\<close>, whose message decides the description of the notification.
\<close>

definition shown_error :: "string \<Rightarrow> string" where
  "shown_error msg =
     (if str_includes ''API key'' msg then msg
      else if str_includes ''fetch'' msg
      then ''Network error. Please check your internet connection.''
      else msg)"

definition key_missing :: string where
  "key_missing = ''Gemini API key not found in localStorage. Please go back to setup and enter your API key.''"

definition key_empty :: string where
  "key_empty = ''Gemini API key is empty. Please go back to setup and enter a valid API key.''"

definition no_response :: string where
  "no_response = ''I couldn't generate a response. Please try again.''"

text \<open>
  The \<open>try\<close> block of \<open>sendMessage\<close>: the requests it issues, and either the message of
  the error it throws (\<open>Inl\<close>) or the reply (\<open>Inr\<close>).
\<close>

definition send_request ::
  "network \<Rightarrow> storage \<Rightarrow> video_data \<Rightarrow> transcript_entry list \<Rightarrow> string
     \<Rightarrow> gemini_request list \<times> (string + string)" where
  "send_request N L video transcript inp =
     (case L ''gemini_api_key'' of
        None \<Rightarrow> ([], Inl key_missing)
      | Some geminiKey \<Rightarrow>
          if geminiKey = [] then ([], Inl key_missing)
          else if trim geminiKey = [] then ([], Inl key_empty)
          else
            (let context = build_context video transcript;
                 prompt = build_prompt context (trim inp);
                 req = \<lparr>url = gemini_url geminiKey, prompt_text = prompt\<rparr>
             in case generateContent N geminiKey prompt of
                  Rejected e \<Rightarrow> ([req], Inl e)
                | Resolved response \<Rightarrow>
                    if \<not> (200 \<le> reply_status response \<and> reply_status response \<le> 299) then
                      (case reply_text response of
                         Rejected e \<Rightarrow> ([req], Inl e)
                       | Resolved errorText \<Rightarrow> ([req], Inl (status_error (reply_status response))))
                    else
                      (case reply_json response of
                         Rejected e \<Rightarrow> ([req], Inl e)
                       | Resolved t \<Rightarrow> ([req], Inr (or_default t no_response)))))"

text \<open>
  \<open>sendMessage\<close>. \<open>now\<close> and \<open>later\<close> are the two readings of the clock. \<open>isLoading\<close>
  is set on entry and cleared in the \<open>finally\<close> block.
\<close>

definition sendMessage ::
  "network \<Rightarrow> storage \<Rightarrow> video_data \<Rightarrow> nat \<Rightarrow> nat \<Rightarrow> chat_state \<Rightarrow> chat_state" where
  "sendMessage N L video now later st =
     (if trim (input st) = [] \<or> c_isLoading st then st
      else
        (let userMessage =
               \<lparr>msg_id = dec now, content = trim (input st), sender = User, timestamp = now\<rparr>;
             st1 = st\<lparr>messages := messages st @ [userMessage], input := [], c_isLoading := False\<rparr>
         in case send_request N L video (currentTranscript st) (input st) of
              (reqs, Inr aiResponse) \<Rightarrow>
                st1\<lparr>sent := sent st1 @ reqs,
                    messages := messages st1 @
                      [\<lparr>msg_id = dec (later + 1), content = aiResponse, sender = Ai,
                        timestamp = later\<rparr>]\<rparr>
            | (reqs, Inl err) \<Rightarrow>
                st1\<lparr>sent := sent st1 @ reqs,
                    toasts := toasts st1 @
                      [\<lparr>toast_title = ''Chat Error'', toast_description = shown_error err,
                        destructive = True\<rparr>]\<rparr>))"

section \<open>The player screen: loading the transcript\<close>

record player_state = effects +
  p_notes :: string
  transcript :: "transcript_entry list"
  p_isLoadingTranscript :: bool
  showTranscript :: bool
  isSaving :: bool
  notified :: "transcript_entry list list"

text \<open>
  \<open>extractTranscriptFromPlayer\<close>: whether or not the embedded player is found, the result
  is empty.
\<close>

definition extractTranscriptFromPlayer :: "bool \<Rightarrow> transcript_entry list" where
  "extractTranscriptFromPlayer iframeFound = (if iframeFound then [] else [])"

definition transcript_error_player :: toast where
  "transcript_error_player =
     \<lparr>toast_title = ''Transcript Error'',
      toast_description = ''Could not load transcript. Not all videos have transcripts available.'',
      destructive = True\<rparr>"

text \<open>
  The common part of the two successful branches of \<open>fetchTranscript\<close>; \<open>notified\<close> logs
  the calls of \<open>onTranscriptUpdate\<close>, which is made only when the prop is given.
\<close>

definition show_transcript ::
  "bool \<Rightarrow> transcript_entry list \<Rightarrow> string \<Rightarrow> player_state \<Rightarrow> player_state" where
  "show_transcript hasCallback transcriptData descr st =
     st\<lparr>transcript := transcriptData, showTranscript := True,
        notified := notified st @ (if hasCallback then [transcriptData] else []),
        toasts := toasts st @
          [\<lparr>toast_title = ''Transcript Loaded'', toast_description = descr,
            destructive = False\<rparr>]\<rparr>"

definition fetchTranscript ::
  "network \<Rightarrow> video_data \<Rightarrow> bool \<Rightarrow> bool \<Rightarrow> player_state \<Rightarrow> player_state" where
  "fetchTranscript N video iframeFound hasCallback st =
     (let st1 = st\<lparr>p_isLoadingTranscript := False, fetched := fetched st @ [TimedText]\<rparr> in
      case timedtext N (videoId video) of
        Rejected e \<Rightarrow> st1\<lparr>toasts := toasts st1 @ [transcript_error_player]\<rparr>
      | Resolved response \<Rightarrow>
          if ok response then
            (case body response of
               Rejected e \<Rightarrow> st1\<lparr>toasts := toasts st1 @ [transcript_error_player]\<rparr>
             | Resolved xmlText \<Rightarrow>
                 show_transcript hasCallback (parseTranscriptXML (parseFromString N) xmlText)
                   ''Video transcript has been loaded successfully.'' st1)
          else
            (let st2 = st1\<lparr>fetched := fetched st1 @ [PlayerEmbed]\<rparr>;
                 fallbackTranscript = extractTranscriptFromPlayer iframeFound
             in if length fallbackTranscript > 0
                then show_transcript hasCallback fallbackTranscript
                       ''Video transcript extracted from player.'' st2
                else st2\<lparr>toasts := toasts st2 @ [transcript_error_player]\<rparr>))"

section \<open>The controller\<close>

datatype app_view = Setup | Search | Player | Chat

text \<open>
  The state of the controller (\<open>Index\<close>) with what its handlers touch: the local storage
  and, in \<open>in_flight\<close>, the transcript acquisitions that have been started and whose
  continuation, a call of \<open>setVideoTranscript\<close>, has not run yet.
\<close>

record app = effects +
  currentView :: app_view
  apiKeys :: "(string \<times> string) option"
  videos :: "video_data list"
  selectedVideo :: "video_data option"
  videoTranscript :: "transcript_entry list"
  isLoading :: bool
  localStorage :: storage
  in_flight :: "transcript_entry list list"

text \<open>
  The controller starts in \<open>setup\<close>; its mount effect moves on to \<open>search\<close> when both
  keys are stored and non-empty.
\<close>

definition app_start :: "storage \<Rightarrow> app" where
  "app_start L =
     (let youtubeKey = or_default (L ''youtube_api_key'') [];
          geminiKey = or_default (L ''gemini_api_key'') [];
          s = \<lparr>toasts = [], fetched = [], currentView = Setup, apiKeys = None, videos = [],
               selectedVideo = None, videoTranscript = [], isLoading = False,
               localStorage = L, in_flight = []\<rparr>
      in if youtubeKey \<noteq> [] \<and> geminiKey \<noteq> []
         then s\<lparr>apiKeys := Some (youtubeKey, geminiKey), currentView := Search\<rparr>
         else s)"

definition handleKeysSet :: "string \<Rightarrow> string \<Rightarrow> app \<Rightarrow> app" where
  "handleKeysSet youtubeKey geminiKey s =
     s\<lparr>apiKeys := Some (youtubeKey, geminiKey), currentView := Search\<rparr>"

definition missing_keys :: toast where
  "missing_keys =
     \<lparr>toast_title = ''Missing API Keys'',
      toast_description = ''Please enter both YouTube and Gemini API keys.'',
      destructive = True\<rparr>"

definition keys_saved :: toast where
  "keys_saved =
     \<lparr>toast_title = ''API Keys Saved'',
      toast_description = ''Your API keys have been securely stored locally.'',
      destructive = False\<rparr>"

text \<open>\<open>handleSubmit\<close> of the setup screen, with the two fields of the form.\<close>

definition handleSubmit :: "string \<Rightarrow> string \<Rightarrow> app \<Rightarrow> app" where
  "handleSubmit youtubeKey geminiKey s =
     (if trim youtubeKey = [] \<or> trim geminiKey = []
      then s\<lparr>toasts := toasts s @ [missing_keys]\<rparr>
      else
        (let s1 = s\<lparr>localStorage := (localStorage s)(''youtube_api_key'' \<mapsto> trim youtubeKey)\<rparr>;
             s2 = s1\<lparr>localStorage := (localStorage s1)(''gemini_api_key'' \<mapsto> trim geminiKey)\<rparr>;
             s3 = handleKeysSet (trim youtubeKey) (trim geminiKey) s2
         in s3\<lparr>toasts := toasts s3 @ [keys_saved]\<rparr>))"

definition handlePlayVideo :: "video_data \<Rightarrow> app \<Rightarrow> app" where
  "handlePlayVideo video s =
     s\<lparr>selectedVideo := Some video, videoTranscript := [], currentView := Player\<rparr>"

text \<open>
  The asynchronous part of \<open>handleChatWithVideo\<close>: the requests it issues and, when it
  gets that far, the transcript that it passes to \<open>setVideoTranscript\<close>. The timed-text
  request is in the \<open>catch\<close> block, so it is issued only when method 1 throws.
\<close>

definition chat_acquire ::
  "network \<Rightarrow> (string \<times> string) option \<Rightarrow> video_data
     \<Rightarrow> retrieval list \<times> transcript_entry list option" where
  "chat_acquire N keys video =
     (case keys of
        None \<Rightarrow> ([], None)
      | Some (youtube, gemini) \<Rightarrow>
          if youtube = [] then ([], None)
          else
            (case caption_api N youtube (videoId video) of
               (reqs, Loaded transcriptData) \<Rightarrow> (reqs, Some transcriptData)
             | (reqs, NotLoaded) \<Rightarrow> (reqs, None)
             | (reqs, Threw e) \<Rightarrow>
                 (case timedtext N (videoId video) of
                    Rejected e' \<Rightarrow> (reqs @ [TimedText], None)
                  | Resolved response \<Rightarrow>
                      if ok response then
                        (case body response of
                           Rejected e' \<Rightarrow> (reqs @ [TimedText], None)
                         | Resolved xmlText \<Rightarrow>
                             (reqs @ [TimedText],
                              Some (parseTranscriptXML (parseFromString N) xmlText)))
                      else (reqs @ [TimedText], None))))"

text \<open>
  \<open>handleChatWithVideo\<close>: the two state updates before the first \<open>await\<close>, and the
  acquisition that is left in flight.
\<close>

definition handleChatWithVideo :: "network \<Rightarrow> video_data \<Rightarrow> app \<Rightarrow> app" where
  "handleChatWithVideo N video s =
     (case chat_acquire N (apiKeys s) video of
        (reqs, result) \<Rightarrow>
          s\<lparr>selectedVideo := Some video, currentView := Chat,
             fetched := fetched s @ reqs,
             in_flight := in_flight s @ (case result of None \<Rightarrow> [] | Some t \<Rightarrow> [t])\<rparr>)"

definition handleBackToSearch :: "app \<Rightarrow> app" where
  "handleBackToSearch s =
     s\<lparr>currentView := Search, selectedVideo := None, videoTranscript := []\<rparr>"

definition handleTranscriptUpdate :: "transcript_entry list \<Rightarrow> app \<Rightarrow> app" where
  "handleTranscriptUpdate t s = s\<lparr>videoTranscript := t\<rparr>"

text \<open>The screen that the controller renders.\<close>

definition screen :: "app \<Rightarrow> app_view" where
  "screen s =
     (if currentView s = Setup then Setup
      else if currentView s = Player \<and> selectedVideo s \<noteq> None then Player
      else if currentView s = Chat \<and> selectedVideo s \<noteq> None then Chat
      else Search)"

text \<open>
  What can happen to the controller: the user acts on the screen that is rendered, a
  search completes and stores its results, or an acquisition in flight completes and
  stores its transcript. The player screen's \<open>Load Transcript\<close> button starts
  \<open>fetchTranscript\<close>, which reports to the controller through \<open>onTranscriptUpdate\<close>.
\<close>

datatype event =
    SubmitKeys string string
  | SearchDone "video_data list"
  | PlayVideo video_data
  | ChatWithVideo video_data
  | BackToSearch
  | LoadTranscript bool
  | Complete nat

definition player_start :: player_state where
  "player_start =
     \<lparr>toasts = [], fetched = [], p_notes = [], transcript = [], p_isLoadingTranscript = False,
      showTranscript = False, isSaving = False, notified = []\<rparr>"

definition step :: "network \<Rightarrow> app \<Rightarrow> event \<Rightarrow> app option" where
  "step N s ev =
     (case ev of
        SubmitKeys y g \<Rightarrow> if screen s = Setup then Some (handleSubmit y g s) else None
      | SearchDone vs \<Rightarrow>
          if screen s = Search \<and> apiKeys s \<noteq> None
          then Some (s\<lparr>videos := vs, isLoading := False\<rparr>) else None
      | PlayVideo v \<Rightarrow>
          if screen s = Search \<and> v \<in> set (videos s) then Some (handlePlayVideo v s) else None
      | ChatWithVideo v \<Rightarrow>
          if screen s = Search \<and> v \<in> set (videos s)
          then Some (handleChatWithVideo N v s) else None
      | BackToSearch \<Rightarrow>
          if screen s = Player \<or> screen s = Chat then Some (handleBackToSearch s) else None
      | LoadTranscript iframeFound \<Rightarrow>
          (case selectedVideo s of
             Some v \<Rightarrow>
               if screen s = Player
               then Some (s\<lparr>in_flight := in_flight s @
                       notified (fetchTranscript N v iframeFound True player_start)\<rparr>)
               else None
           | None \<Rightarrow> None)
      | Complete i \<Rightarrow>
          if i < length (in_flight s)
          then Some (handleTranscriptUpdate (in_flight s ! i)
                       (s\<lparr>in_flight := take i (in_flight s) @ drop (Suc i) (in_flight s)\<rparr>))
          else None)"

fun run :: "network \<Rightarrow> app \<Rightarrow> event list \<Rightarrow> app option" where
  "run N s [] = Some s"
| "run N s (ev # evs) = (case step N s ev of None \<Rightarrow> None | Some s' \<Rightarrow> run N s' evs)"

section \<open>Notions and inputs used in the statements\<close>

text \<open>
  The shape of a time stamp: an opening and a closing bracket or parenthesis, one or two
  digits of minutes, exactly two digits of seconds.
\<close>

definition timestamp_shape :: "char \<Rightarrow> string \<Rightarrow> string \<Rightarrow> char \<Rightarrow> bool" where
  "timestamp_shape opn mm ss cls =
     (is_open opn \<and> is_close cls
      \<and> (length mm = 1 \<or> length mm = 2) \<and> (\<forall>d \<in> set mm. is_digit d)
      \<and> length ss = 2 \<and> (\<forall>d \<in> set ss. is_digit d))"

text \<open>\<open>x <= y\<close> on Numbers, and a transcript whose offsets never decrease.\<close>

definition js_le :: "number \<Rightarrow> number \<Rightarrow> bool" where
  "js_le x y =
     (case (x, y) of
        (NaN, _) \<Rightarrow> False
      | (_, NaN) \<Rightarrow> False
      | (NegInf, _) \<Rightarrow> True
      | (_, PosInf) \<Rightarrow> True
      | (Fin a, Fin b) \<Rightarrow> a \<le> b
      | _ \<Rightarrow> False)"

fun nondecreasing :: "transcript_entry list \<Rightarrow> bool" where
  "nondecreasing (a # b # r) = (js_le (offset a) (offset b) \<and> nondecreasing (b # r))"
| "nondecreasing _ = True"

text \<open>An XML parser that finds no element of a transcript, as for a malformed payload.\<close>

definition no_dom :: "string \<Rightarrow> xml_node" where
  "no_dom s = Element ''parsererror'' [] []"

text \<open>
  A payload with a non-numeric \<open>start\<close> and an empty text in its first element, and the
  document the browser makes of it.
\<close>

definition bad_attr_xml :: string where
  "bad_attr_xml =
     ''<transcript><text start='abc' dur='1.5'></text><text start='2'>hello</text></transcript>''"

definition bad_attr_dom :: "string \<Rightarrow> xml_node" where
  "bad_attr_dom s =
     Element ''transcript'' []
       [Element ''text'' [(''start'', ''abc''), (''dur'', ''1.5'')] [],
        Element ''text'' [(''start'', ''2'')] [TextNode ''hello'']]"

text \<open>Payloads whose fragments are not in the order of their time stamps.\<close>

definition unordered_xml :: string where
  "unordered_xml =
     ''<transcript><text start='5' dur='1'>b</text><text start='3' dur='1'>a</text></transcript>''"

definition unordered_dom :: "string \<Rightarrow> xml_node" where
  "unordered_dom s =
     Element ''transcript'' []
       [Element ''text'' [(''start'', ''5''), (''dur'', ''1'')] [TextNode ''b''],
        Element ''text'' [(''start'', ''3''), (''dur'', ''1'')] [TextNode ''a'']]"

definition unordered_text :: string where
  "unordered_text = ''[1:05] b'' @ NL @ ''[0:03] a''"

text \<open>Two videos of a search result.\<close>

definition video_A :: video_data where
  "video_A = \<lparr>videoId = ''A'', title = ''Alpha'', thumbnail = [], description = ''first'',
     summary = None\<rparr>"

definition video_B :: video_data where
  "video_B = \<lparr>videoId = ''B'', title = ''Beta'', thumbnail = [], description = ''second'',
     summary = None\<rparr>"

text \<open>
  A network in which video \<open>A\<close> has one caption track, whose content is a line of plain
  text, video \<open>B\<close> has none, the timed-text endpoint answers 404 and the generative endpoint
  answers 429.
\<close>

definition list_A_only :: "string \<Rightarrow> string \<Rightarrow> string list option response awaited" where
  "list_A_only vid key =
     Resolved \<lparr>status = 200, body = Resolved (Some (if vid = ''A'' then [''track1''] else []))\<rparr>"

definition content_line :: "string \<Rightarrow> string \<Rightarrow> string response awaited" where
  "content_line captionId key = Resolved \<lparr>status = 200, body = Resolved ''[0:01] hi''\<rparr>"

definition timedtext_404 :: "string \<Rightarrow> string response awaited" where
  "timedtext_404 vid = Resolved \<lparr>status = 404, body = Resolved []\<rparr>"

definition generate_429 :: "string \<Rightarrow> string \<Rightarrow> gemini_reply awaited" where
  "generate_429 key prompt =
     Resolved \<lparr>reply_status = 429, reply_text = Resolved ''{}'', reply_json = Resolved None\<rparr>"

definition example_net :: network where
  "example_net =
     \<lparr>captionsList = list_A_only, captionsContent = content_line, timedtext = timedtext_404,
      generateContent = generate_429, parseFromString = no_dom\<rparr>"

definition example_storage :: storage where
  "example_storage = [''youtube_api_key'' \<mapsto> ''yt123'', ''gemini_api_key'' \<mapsto> ''gm456'']"

text \<open>
  A chat screen for video \<open>A\<close> that holds a transcript of two segments, with a question typed in.
\<close>

definition asking :: chat_state where
  "asking =
     (chat_mount video_A [\<lparr>etext = ''hi'', duration = Fin 0, offset = Fin 1\<rparr>,
                          \<lparr>etext = ''there'', duration = Fin 0, offset = Fin 2\<rparr>] 0)
       \<lparr>input := '' what is said? ''\<rparr>"

text \<open>
  Three runs of the controller. In each the user stores the keys, gets two search results,
  opens the chat on \<open>A\<close> and goes back to the search before the acquisition for \<open>A\<close>
  completes. In the first the acquisition completes and then the user opens the chat on
  \<open>B\<close>; in the second the user opens the chat on \<open>B\<close> and then the acquisition completes;
  in the third the acquisition completes and then the user plays \<open>B\<close>.
\<close>

definition stale_trace :: "event list" where
  "stale_trace =
     [SubmitKeys ''yt123'' ''gm456'', SearchDone [video_A, video_B], ChatWithVideo video_A,
      BackToSearch, Complete 0, ChatWithVideo video_B]"

definition late_trace :: "event list" where
  "late_trace =
     [SubmitKeys ''yt123'' ''gm456'', SearchDone [video_A, video_B], ChatWithVideo video_A,
      BackToSearch, ChatWithVideo video_B, Complete 0]"

definition play_trace :: "event list" where
  "play_trace =
     [SubmitKeys ''yt123'' ''gm456'', SearchDone [video_A, video_B], ChatWithVideo video_A,
      BackToSearch, Complete 0, PlayVideo video_B]"

text \<open>
  A list of Numbers that never decreases.
\<close>

fun ascending :: "number list \<Rightarrow> bool" where
  "ascending (a # b # r) = (js_le a b \<and> ascending (b # r))"
| "ascending _ = True"

text \<open>
  The value of the first time stamp of a line, whether or not the line yields a segment.
\<close>

definition line_stamp :: "string \<Rightarrow> number option" where
  "line_stamp line =
     (case find_ts line of
        None \<Rightarrow> None
      | Some (before, mm, ss, rest) \<Rightarrow> Some (Fin (of_nat (parseInt mm * 60 + parseInt ss))))"

text \<open>
  A payload whose second line has a time stamp and no text, out of order with the
  first; and a payload whose time stamps are in order.
\<close>

definition gap_text :: string where
  "gap_text = ''[1:05] b'' @ NL @ ''[0:03]  '' @ NL @ ''[2:00] c''"

definition ordered_text :: string where
  "ordered_text = ''[0:03] a'' @ NL @ ''[1:05]  '' @ NL @ ''[2:00] c''"

text \<open>
  The example network with a generative endpoint that answers 429 and then fails while the
  body of the answer is read.
\<close>

definition generate_429_unreadable :: "string \<Rightarrow> string \<Rightarrow> gemini_reply awaited" where
  "generate_429_unreadable key prompt =
     Resolved \<lparr>reply_status = 429, reply_text = Rejected ''Failed to fetch'',
               reply_json = Rejected ''Failed to fetch''\<rparr>"

definition unreadable_net :: network where
  "unreadable_net =
     \<lparr>captionsList = list_A_only, captionsContent = content_line, timedtext = timedtext_404,
      generateContent = generate_429_unreadable, parseFromString = no_dom\<rparr>"



section \<open>Lemmas about the helper functions\<close>

lemma colon_not_digit: "\<not> is_digit (CHR '':'')"
  by (simp add: is_digit_def)

lemma match_tail_SomeD:
  assumes "match_tail r = Some (ss, rest)"
  shows "\<exists>cls. r = '':'' @ ss @ [cls] @ rest \<and> is_close cls \<and> length ss = 2 \<and> (\<forall>d \<in> set ss. is_digit d)"
  using assms by (cases r rule: match_tail.cases) (auto split: if_splits)

lemma match_tail_shape:
  assumes "length ss = 2" "\<forall>d \<in> set ss. is_digit d" "is_close cls"
  shows "match_tail ('':'' @ ss @ [cls] @ rest) = Some (ss, rest)"
proof -
  from assms(1) obtain s1 s2 where ss: "ss = [s1, s2]"
    by (cases ss; cases "tl ss") auto
  with assms show ?thesis by simp
qed

lemma match_minutes_SomeD:
  assumes "match_minutes r = Some (mm, ss, rest)"
  shows "\<exists>cls. r = mm @ '':'' @ ss @ [cls] @ rest \<and> is_close cls
           \<and> (length mm = 1 \<or> length mm = 2) \<and> (\<forall>d \<in> set mm. is_digit d)
           \<and> length ss = 2 \<and> (\<forall>d \<in> set ss. is_digit d)"
  using assms
  by (cases r rule: match_minutes.cases)
     (auto split: if_splits option.splits dest!: match_tail_SomeD)

lemma match_minutes_shape:
  assumes "length mm = 1 \<or> length mm = 2" "\<forall>d \<in> set mm. is_digit d"
    "length ss = 2" "\<forall>d \<in> set ss. is_digit d" "is_close cls"
  shows "match_minutes (mm @ '':'' @ ss @ [cls] @ rest) = Some (mm, ss, rest)"
proof -
  have tail: "match_tail (CHR '':'' # ss @ cls # rest) = Some (ss, rest)"
    using match_tail_shape [OF assms(3,4,5), of rest] by simp
  from assms(3) obtain s1 s2 where ss: "ss = [s1, s2]"
    by (cases ss; cases "tl ss") auto
  from assms(1) show ?thesis
  proof
    assume "length mm = 1"
    then obtain d1 where mm: "mm = [d1]" by (cases mm) auto
    with assms(2) tail show ?thesis by (simp add: colon_not_digit)
  next
    assume "length mm = 2"
    then obtain d1 d2 where mm: "mm = [d1, d2]" by (cases mm; cases "tl mm") auto
    with assms(2) tail show ?thesis by simp
  qed
qed

lemma match_ts_at_SomeD:
  assumes "match_ts_at r = Some (mm, ss, rest)"
  shows "\<exists>opn cls. r = [opn] @ mm @ '':'' @ ss @ [cls] @ rest \<and> timestamp_shape opn mm ss cls"
  using assms
  by (cases r) (auto split: if_splits simp: timestamp_shape_def dest!: match_minutes_SomeD)

lemma match_ts_at_shape:
  assumes "timestamp_shape opn mm ss cls"
  shows "match_ts_at ([opn] @ mm @ '':'' @ ss @ [cls] @ rest) = Some (mm, ss, rest)"
  using assms match_minutes_shape [of mm ss cls rest]
  by (simp add: timestamp_shape_def)

lemma find_ts_SomeD:
  "find_ts line = Some (before, mm, ss, rest) \<Longrightarrow>
     \<exists>opn cls. line = before @ [opn] @ mm @ '':'' @ ss @ [cls] @ rest \<and> timestamp_shape opn mm ss cls"
proof (induction line arbitrary: before)
  case Nil
  then show ?case by simp
next
  case (Cons c cs)
  show ?case
  proof (cases "match_ts_at (c # cs)")
    case (Some t)
    with Cons.prems have "t = (mm, ss, rest)" "before = []"
      by (auto split: prod.splits)
    with Some match_ts_at_SomeD [of "c # cs" mm ss rest] show ?thesis by simp
  next
    case None
    with Cons.prems obtain b where b: "find_ts cs = Some (b, mm, ss, rest)" "before = c # b"
      by (auto split: option.splits)
    from Cons.IH [OF b(1)] b(2) show ?thesis by auto
  qed
qed

lemma find_ts_leading:
  assumes "timestamp_shape opn mm ss cls"
  shows "find_ts ([opn] @ mm @ '':'' @ ss @ [cls] @ rest) = Some ([], mm, ss, rest)"
  using match_ts_at_shape [OF assms, of rest] by simp

lemma trim_dropWhile: "trim (dropWhile is_ws s) = trim s"
  by (simp add: trim_def)

lemma parse_line_leading:
  assumes "timestamp_shape opn mm ss cls"
  shows "parse_line ([opn] @ mm @ '':'' @ ss @ [cls] @ rest) =
     (if trim rest = [] then None
      else Some \<lparr>etext = trim rest, duration = Fin 0,
                 offset = Fin (of_nat (digits_val mm * 60 + digits_val ss))\<rparr>)"
  using find_ts_leading [OF assms, of rest]
  by (simp add: parse_line_def replace_ts_def trim_dropWhile parseInt_def Let_def)

lemma parse_line_SomeD:
  assumes "parse_line line = Some e"
  shows "\<exists>before opn mm ss cls rest.
           line = before @ [opn] @ mm @ '':'' @ ss @ [cls] @ rest \<and> timestamp_shape opn mm ss cls"
proof -
  from assms obtain before mm ss rest where "find_ts line = Some (before, mm, ss, rest)"
    by (auto simp: parse_line_def split: option.splits)
  from find_ts_SomeD [OF this] show ?thesis by blast
qed







lemma parse_lines_append: "parse_lines (xs @ ys) = parse_lines xs @ parse_lines ys"
  by (induction xs) (auto split: option.splits)

lemma split_on_nonempty: "split_on sep s \<noteq> []"
  by (induction s) (auto split: list.splits)

lemma split_on_append:
  "split_on sep (a @ sep # b) = split_on sep a @ split_on sep b"
proof (induction a)
  case Nil
  then show ?case by simp
next
  case (Cons c cs)
  then show ?case
    using split_on_nonempty [of sep cs] by (auto split: list.splits)
qed

lemma foldl_append_entry:
  "foldl append_entry acc t =
     acc @ concat (map (\<lambda>e. ''['' @ formatTime (offset e) @ ''] '' @ etext e @ NL) t)"
  by (induction t arbitrary: acc) (simp_all add: append_entry_def formatTime_def Let_def)

lemma dec_digits: "set (dec n) \<subseteq> set ''0123456789''"
proof (induction n rule: dec.induct)
  case (1 n)
  have d: "digit_char k \<in> set ''0123456789''" for k
    unfolding digit_char_def by (rule nth_mem) simp
  show ?case
  proof (cases "n < 10")
    case True
    then show ?thesis using d [of n] by (subst dec.simps) simp
  next
    case False
    with 1 d [of "n mod 10"] show ?thesis by (subst dec.simps) simp
  qed
qed

lemma str_includes_mem:
  "str_includes (c # p) s \<Longrightarrow> c \<in> set s"
  by (induction s) (auto simp: prefix_def)

lemma str_includes_Nil: "str_includes [] s"
  by (cases s) auto

lemma str_includes_append1: "str_includes p a \<Longrightarrow> str_includes p (a @ b)"
proof (induction a)
  case Nil
  then show ?case by (simp add: str_includes_Nil)
next
  case (Cons c cs)
  from Cons.prems have "prefix p (c # cs) \<or> str_includes p cs" by simp
  then show ?case
  proof
    assume "prefix p (c # cs)"
    then have "prefix p ((c # cs) @ b)" by (rule prefix_prefix)
    then show ?thesis by simp
  next
    assume "str_includes p cs"
    then show ?thesis using Cons.IH by simp
  qed
qed

lemma str_includes_append2: "str_includes p b \<Longrightarrow> str_includes p (a @ b)"
  by (induction a) (auto simp: prefix_def)

lemma str_includes_self: "str_includes p p"
  by (cases p) auto

lemma shown_status_error: "shown_error (status_error n) = status_error n"
proof -
  have nof: "CHR ''f'' \<notin> set (dec n)" using dec_digits [of n] by auto
  have "n = 400 \<or> n = 401 \<or> n = 403 \<or> (n \<noteq> 400 \<and> n \<noteq> 401 \<and> n \<noteq> 403)" by blast
  then show ?thesis
  proof (elim disjE)
    assume "n \<noteq> 400 \<and> n \<noteq> 401 \<and> n \<noteq> 403"
    then have "CHR ''f'' \<notin> set (status_error n)"
      using nof by (simp add: status_error_def status_message_def)
    then have "\<not> str_includes ''fetch'' (status_error n)"
      using str_includes_mem [of "CHR ''f''" "''etch''" "status_error n"] by auto
    then show ?thesis by (simp add: shown_error_def)
  next
    assume "n = 400"
    moreover have "str_includes ''API key'' (status_message 400)"
      by (simp add: status_message_def)
    ultimately show ?thesis
      by (simp add: shown_error_def status_error_def str_includes_append1)
  next
    assume "n = 401"
    moreover have "str_includes ''API key'' (status_message 401)"
      by (simp add: status_message_def)
    ultimately show ?thesis
      by (simp add: shown_error_def status_error_def str_includes_append1)
  next
    assume "n = 403"
    moreover have "str_includes ''API key'' (status_message 403)"
      by (simp add: status_message_def)
    ultimately show ?thesis
      by (simp add: shown_error_def status_error_def str_includes_append1)
  qed
qed

lemma find_ts_complete:
  assumes "timestamp_shape opn mm ss cls"
  shows "find_ts (before @ [opn] @ mm @ '':'' @ ss @ [cls] @ rest) \<noteq> None"
proof (induction before)
  case Nil
  then show ?case using find_ts_leading [OF assms, of rest] by simp
next
  case (Cons c cs)
  then show ?case by (auto split: option.splits)
qed

lemma parse_lines_concat:
  "parse_lines ls = concat (map (\<lambda>line. case parse_line line of None \<Rightarrow> [] | Some e \<Rightarrow> [e]) ls)"
  by (induction ls) (auto split: option.splits)

lemma parse_line_no_timestamp:
  assumes "\<not> (\<exists>before opn mm ss cls rest.
              line = before @ [opn] @ mm @ '':'' @ ss @ [cls] @ rest \<and> timestamp_shape opn mm ss cls)"
  shows "parse_line line = None"
proof (cases "parse_line line")
  case None
  then show ?thesis .
next
  case (Some e)
  from parse_line_SomeD [OF this] assms show ?thesis by blast
qed

lemma no_timestamp_example:
  "\<not> (\<exists>before opn' mm' ss' cls' rest'.
         ''no stamp here'' = before @ [opn'] @ mm' @ '':'' @ ss' @ [cls'] @ rest'
         \<and> timestamp_shape opn' mm' ss' cls')"
proof
  assume "\<exists>before opn' mm' ss' cls' rest'.
         ''no stamp here'' = before @ [opn'] @ mm' @ '':'' @ ss' @ [cls'] @ rest'
         \<and> timestamp_shape opn' mm' ss' cls'"
  then obtain before opn' mm' ss' cls' rest' where
    eq: "''no stamp here'' = before @ [opn'] @ mm' @ '':'' @ ss' @ [cls'] @ rest'"
    and sh: "timestamp_shape opn' mm' ss' cls'" by blast
  have "find_ts ''no stamp here'' = None" by code_simp
  with find_ts_complete [OF sh, of before rest'] eq show False by simp
qed


lemma parseFloat_zero: "parseFloat ''0'' = Fin 0"
  by code_simp

lemma entry_of_element_fields:
  "etext (entry_of_element el) = textContent el
   \<and> offset (entry_of_element el) =
       (case getAttribute ''start'' el of
          None \<Rightarrow> Fin 0 | Some v \<Rightarrow> if v = [] then Fin 0 else parseFloat v)
   \<and> duration (entry_of_element el) =
       (case getAttribute ''dur'' el of
          None \<Rightarrow> Fin 0 | Some v \<Rightarrow> if v = [] then Fin 0 else parseFloat v)"
  by (simp add: entry_of_element_def or_default_def parseFloat_zero Let_def split: option.splits)

lemma build_context_eq:
  "build_context video t =
     base_context video
     @ (if t = [] then [] else NL @ NL @ ''Video Transcript: '' @ join '' '' (map etext t))"
  by (simp add: build_context_def)

lemma sendMessage_sent:
  "sent (sendMessage N L video now later st) =
     sent st @ (if trim (input st) = [] \<or> c_isLoading st then []
                else fst (send_request N L video (currentTranscript st) (input st)))"
  by (auto simp: sendMessage_def Let_def split: prod.splits sum.splits)

lemma send_request_reqs:
  "fst (send_request N L video t inp) =
     (case L ''gemini_api_key'' of
        None \<Rightarrow> []
      | Some key \<Rightarrow>
          if key = [] \<or> trim key = [] then []
          else [\<lparr>url = gemini_url key,
                 prompt_text = build_prompt (build_context video t) (trim inp)\<rparr>])"
  by (auto simp: send_request_def Let_def split: option.splits awaited.splits)

lemma status_message_distinct:
  "distinct [status_message 400, status_message 401, status_message 403,
             status_message 429, status_message 500, status_message 404]"
  by (simp add: status_message_def)







lemma find_ts_first:
  assumes "timestamp_shape opn mm ss cls"
    and "\<not> (\<exists>b' o' m' s' c' r'. length b' < length before
            \<and> before @ [opn] @ mm @ '':'' @ ss @ [cls] @ rest = b' @ [o'] @ m' @ '':'' @ s' @ [c'] @ r'
            \<and> timestamp_shape o' m' s' c')"
  shows "find_ts (before @ [opn] @ mm @ '':'' @ ss @ [cls] @ rest) = Some (before, mm, ss, rest)"
  using assms(2)
proof (induction before)
  case Nil
  then show ?case using find_ts_leading [OF assms(1), of rest] by simp
next
  case (Cons c b)
  let ?tail = "[opn] @ mm @ '':'' @ ss @ [cls] @ rest"
  have none: "match_ts_at (c # b @ ?tail) = None"
  proof (cases "match_ts_at (c # b @ ?tail)")
    case None
    then show ?thesis .
  next
    case (Some t)
    obtain m' s' r' where "t = (m', s', r')" by (cases t) auto
    with Some match_ts_at_SomeD [of "c # b @ ?tail" m' s' r']
    obtain o' c' where "c # b @ ?tail = [] @ [o'] @ m' @ '':'' @ s' @ [c'] @ r'"
      "timestamp_shape o' m' s' c'" by auto
    then have e: "(c # b) @ ?tail = [] @ [o'] @ m' @ '':'' @ s' @ [c'] @ r'"
      and sh: "timestamp_shape o' m' s' c'" by simp_all
    have "length ([] :: string) < length (c # b)" by simp
    with e sh have "\<exists>b' o' m' s' c' r'. length b' < length (c # b)
            \<and> (c # b) @ ?tail = b' @ [o'] @ m' @ '':'' @ s' @ [c'] @ r'
            \<and> timestamp_shape o' m' s' c'" by (intro exI conjI)
    with Cons.prems show ?thesis by (rule notE)
  qed
  have "\<not> (\<exists>b' o' m' s' c' r'. length b' < length b
            \<and> b @ ?tail = b' @ [o'] @ m' @ '':'' @ s' @ [c'] @ r'
            \<and> timestamp_shape o' m' s' c')"
  proof
    assume "\<exists>b' o' m' s' c' r'. length b' < length b
            \<and> b @ ?tail = b' @ [o'] @ m' @ '':'' @ s' @ [c'] @ r'
            \<and> timestamp_shape o' m' s' c'"
    then obtain b' o' m' s' c' r' where l: "length b' < length b"
      and e: "b @ ?tail = b' @ [o'] @ m' @ '':'' @ s' @ [c'] @ r'"
      and s: "timestamp_shape o' m' s' c'" by blast
    from l have "length (c # b') < length (c # b)" by simp
    moreover from e have "(c # b) @ ?tail = (c # b') @ [o'] @ m' @ '':'' @ s' @ [c'] @ r'" by simp
    ultimately have "\<exists>b' o' m' s' c' r'. length b' < length (c # b)
            \<and> (c # b) @ ?tail = b' @ [o'] @ m' @ '':'' @ s' @ [c'] @ r'
            \<and> timestamp_shape o' m' s' c'" using s by (intro exI conjI)
    with Cons.prems show False by (rule notE)
  qed
  from Cons.IH [OF this] none show ?case by simp
qed

lemma find_ts_leftmost:
  assumes "timestamp_shape o' m' s' c'"
  shows "\<exists>b m s r. find_ts (b' @ [o'] @ m' @ '':'' @ s' @ [c'] @ r') = Some (b, m, s, r)
           \<and> length b \<le> length b'"
proof (induction b')
  case Nil
  then show ?case using find_ts_leading [OF assms, of r'] by simp
next
  case (Cons c cs)
  then obtain b m s r where ih: "find_ts (cs @ [o'] @ m' @ '':'' @ s' @ [c'] @ r') = Some (b, m, s, r)"
    "length b \<le> length cs" by blast
  show ?case
  proof (cases "match_ts_at (c # cs @ [o'] @ m' @ '':'' @ s' @ [c'] @ r')")
    case None
    with ih show ?thesis by simp
  next
    case (Some t)
    obtain m1 s1 r1 where "t = (m1, s1, r1)" by (cases t) auto
    with Some show ?thesis by simp
  qed
qed

lemma parse_line_first:
  assumes "timestamp_shape opn mm ss cls"
    and "\<not> (\<exists>b' o' m' s' c' r'. length b' < length before
            \<and> before @ [opn] @ mm @ '':'' @ ss @ [cls] @ rest = b' @ [o'] @ m' @ '':'' @ s' @ [c'] @ r'
            \<and> timestamp_shape o' m' s' c')"
  shows "parse_line (before @ [opn] @ mm @ '':'' @ ss @ [cls] @ rest) =
     (if trim (before @ dropWhile is_ws rest) = [] then None
      else Some \<lparr>etext = trim (before @ dropWhile is_ws rest), duration = Fin 0,
                 offset = Fin (of_nat (digits_val mm * 60 + digits_val ss))\<rparr>)"
  using find_ts_first [OF assms]
  by (simp add: parse_line_def replace_ts_def parseInt_def Let_def)

lemma first_stamp_example:
  "\<not> (\<exists>b' o' m' s' c' r'. length b' < length ''hello ''
        \<and> ''hello '' @ [CHR ''[''] @ ''1'' @ '':'' @ ''05'' @ [CHR '']''] @ '' world''
            = b' @ [o'] @ m' @ '':'' @ s' @ [c'] @ r'
        \<and> timestamp_shape o' m' s' c')"
proof
  assume "\<exists>b' o' m' s' c' r'. length b' < length ''hello ''
        \<and> ''hello '' @ [CHR ''[''] @ ''1'' @ '':'' @ ''05'' @ [CHR '']''] @ '' world''
            = b' @ [o'] @ m' @ '':'' @ s' @ [c'] @ r'
        \<and> timestamp_shape o' m' s' c'"
  then obtain b' o' m' s' c' r' where l: "length b' < length ''hello ''"
    and e: "''hello '' @ [CHR ''[''] @ ''1'' @ '':'' @ ''05'' @ [CHR '']''] @ '' world''
            = b' @ [o'] @ m' @ '':'' @ s' @ [c'] @ r'"
    and s: "timestamp_shape o' m' s' c'" by blast
  have f: "find_ts ''hello [1:05] world'' = Some (''hello '', ''1'', ''05'', '' world'')"
    by code_simp
  from find_ts_leftmost [OF s, of b' r'] obtain b m s1 r where
    g: "find_ts (b' @ [o'] @ m' @ '':'' @ s' @ [c'] @ r') = Some (b, m, s1, r)"
    and le: "length b \<le> length b'" by blast
  have "''hello '' @ [CHR ''[''] @ ''1'' @ '':'' @ ''05'' @ [CHR '']''] @ '' world''
          = ''hello [1:05] world''" by simp
  with e have "b' @ [o'] @ m' @ '':'' @ s' @ [c'] @ r' = ''hello [1:05] world''"
    by (simp only:)
  with g f have "b = ''hello ''" by (simp only: option.inject prod.inject)
  with le l show False by simp
qed

lemma js_le_trans: "js_le x y \<Longrightarrow> js_le y z \<Longrightarrow> js_le x z"
  by (cases x; cases y; cases z) (auto simp: js_le_def)

lemma ascending_sorted_wrt: "ascending xs = sorted_wrt js_le xs"
proof (induction xs rule: ascending.induct)
  case (1 a b r)
  have "transp js_le" by (rule transpI) (rule js_le_trans)
  from sorted_wrt2 [OF this, of a b r] 1 show ?case by simp
qed simp_all

lemma nondecreasing_ascending: "nondecreasing es = ascending (map offset es)"
  by (induction es rule: nondecreasing.induct) simp_all

lemma parse_line_stamp: "parse_line line = Some e \<Longrightarrow> line_stamp line = Some (offset e)"
  by (auto simp: parse_line_def line_stamp_def Let_def split: option.splits if_splits)

lemma parse_lines_offsets:
  "map offset (parse_lines ls) = List.map_filter (\<lambda>l. map_option offset (parse_line l)) ls"
  by (induction ls) (auto simp: List.map_filter_simps split: option.splits)

lemma parse_lines_offsets_subset:
  "set (map offset (parse_lines ls)) \<subseteq> set (List.map_filter line_stamp ls)"
proof (induction ls)
  case Nil
  then show ?case by simp
next
  case (Cons l ls)
  show ?case
  proof (cases "parse_line l")
    case None
    with Cons show ?thesis
      by (cases "line_stamp l") (auto simp: List.map_filter_simps)
  next
    case (Some e)
    with Cons parse_line_stamp [OF Some] show ?thesis
      by (auto simp: List.map_filter_simps)
  qed
qed

lemma parse_lines_sorted:
  "sorted_wrt js_le (List.map_filter line_stamp ls) \<Longrightarrow>
     sorted_wrt js_le (map offset (parse_lines ls))"
proof (induction ls)
  case Nil
  then show ?case by simp
next
  case (Cons l ls)
  show ?case
  proof (cases "parse_line l")
    case None
    with Cons show ?thesis
      by (cases "line_stamp l") (auto simp: List.map_filter_simps)
  next
    case (Some e)
    from parse_line_stamp [OF Some] Cons.prems
    have a: "\<forall>y \<in> set (List.map_filter line_stamp ls). js_le (offset e) y"
      and b: "sorted_wrt js_le (List.map_filter line_stamp ls)"
      by (auto simp: List.map_filter_simps)
    from a parse_lines_offsets_subset [of ls]
    have "\<forall>y \<in> set (map offset (parse_lines ls)). js_le (offset e) y" by blast
    with Cons.IH [OF b] Some show ?thesis by simp
  qed
qed

lemma xml_offsets:
  "map offset (parseTranscriptXML Q x) =
     map (\<lambda>el. parseFloat (or_default (getAttribute ''start'' el) ''0''))
       (getElementsByTagName ''text'' (Q x))"
  by (simp add: parseTranscriptXML_def entry_of_element_def Let_def)

section \<open>The claims\<close>

text \<open>
  Claim C1. The claim asks that entering the chat with another video resets the
  transcript at once, so that video \<open>B\<close> is never shown with segments acquired for video
  \<open>A\<close>. \<open>handleChatWithVideo\<close> does not reset it (\<open>handlePlayVideo\<close> and
  \<open>handleBackToSearch\<close> do), and a completing acquisition stores its transcript whatever
  video is selected. In the first two runs the controller ends on the chat screen for
  \<open>B\<close> with the transcript acquired for \<open>A\<close>; in the third, where \<open>B\<close> is played instead, the
  transcript is empty.
\<close>

theorem chat_entry_keeps_transcript:
  "map_option currentView (run example_net (app_start Map.empty) stale_trace) = Some Chat
   \<and> map_option selectedVideo (run example_net (app_start Map.empty) stale_trace)
       = Some (Some video_B)
   \<and> map_option videoTranscript (run example_net (app_start Map.empty) stale_trace)
       = Some [\<lparr>etext = ''hi'', duration = Fin 0, offset = Fin 1\<rparr>]
   \<and> map_option currentView (run example_net (app_start Map.empty) late_trace) = Some Chat
   \<and> map_option selectedVideo (run example_net (app_start Map.empty) late_trace)
       = Some (Some video_B)
   \<and> map_option videoTranscript (run example_net (app_start Map.empty) late_trace)
       = Some [\<lparr>etext = ''hi'', duration = Fin 0, offset = Fin 1\<rparr>]
   \<and> map_option videoTranscript (run example_net (app_start Map.empty) play_trace) = Some []"
  by code_simp




text \<open>
  Claim C3, as amended. The XML parser produces exactly one segment for each element
  tagged \<open>text\<close>, in document order, and drops none: the segment's text is the element's
  text content, also when that is empty, and its offset and duration are \<open>parseFloat\<close> of the
  \<open>start\<close> and \<open>dur\<close> attributes, with 0 when the attribute is absent or empty.
\<close>

theorem parseTranscriptXML_one_per_element:
  "length (parseTranscriptXML P x) = length (getElementsByTagName ''text'' (P x))
   \<and> (\<forall>i < length (getElementsByTagName ''text'' (P x)).
        etext (parseTranscriptXML P x ! i) = textContent (getElementsByTagName ''text'' (P x) ! i)
        \<and> offset (parseTranscriptXML P x ! i) =
            (case getAttribute ''start'' (getElementsByTagName ''text'' (P x) ! i) of
               None \<Rightarrow> Fin 0 | Some v \<Rightarrow> if v = [] then Fin 0 else parseFloat v)
        \<and> duration (parseTranscriptXML P x ! i) =
            (case getAttribute ''dur'' (getElementsByTagName ''text'' (P x) ! i) of
               None \<Rightarrow> Fin 0 | Some v \<Rightarrow> if v = [] then Fin 0 else parseFloat v))"
  using entry_of_element_fields by (simp add: parseTranscriptXML_def)

text \<open>
  The statement of C3 at a payload of two elements, the second without \<open>dur\<close>.
\<close>

theorem parseTranscriptXML_one_per_element_witness:
  "length (getElementsByTagName ''text'' (bad_attr_dom bad_attr_xml)) = 2
   \<and> length (parseTranscriptXML bad_attr_dom bad_attr_xml) = 2
   \<and> etext (parseTranscriptXML bad_attr_dom bad_attr_xml ! 1) = ''hello''
   \<and> offset (parseTranscriptXML bad_attr_dom bad_attr_xml ! 1) = Fin 2
   \<and> duration (parseTranscriptXML bad_attr_dom bad_attr_xml ! 1) = Fin 0"
proof -
  have els: "getElementsByTagName ''text'' (bad_attr_dom bad_attr_xml) =
       [Element ''text'' [(''start'', ''abc''), (''dur'', ''1.5'')] [],
        Element ''text'' [(''start'', ''2'')] [TextNode ''hello'']]"
    by (simp add: bad_attr_dom_def)
  have pf: "parseFloat ''2'' = Fin 2" by code_simp
  from parseTranscriptXML_one_per_element [of bad_attr_dom bad_attr_xml] els pf
  show ?thesis by simp
qed

text \<open>
  Claim C3 as it was stated fails at the same payload: the first element has the
  non-numeric \<open>start\<close> attribute \<open>abc\<close> and no text; its segment has the offset \<open>NaN\<close>, not 0,
  and it is kept in the result with its empty text.
\<close>

theorem parseTranscriptXML_counterexample:
  "parseTranscriptXML bad_attr_dom bad_attr_xml =
     [\<lparr>etext = [], duration = Fin (3 / 2), offset = NaN\<rparr>,
      \<lparr>etext = ''hello'', duration = Fin 0, offset = Fin 2\<rparr>]
   \<and> offset (hd (parseTranscriptXML bad_attr_dom bad_attr_xml)) \<noteq> Fin 0
   \<and> etext (hd (parseTranscriptXML bad_attr_dom bad_attr_xml)) = []"
proof -
  have "parseTranscriptXML bad_attr_dom bad_attr_xml =
     [\<lparr>etext = [], duration = Fin (3 / 2), offset = NaN\<rparr>,
      \<lparr>etext = ''hello'', duration = Fin 0, offset = Fin 2\<rparr>]"
    by code_simp
  then show ?thesis by simp
qed

text \<open>
  Claim C4 as it was stated fails. The pattern is searched anywhere in the line and its
  brackets need not pair: \<open>hello [1:05] world\<close>, whose stamp is not leading, yields a
  segment whose text \<open>hello world\<close> is more than the rest of the line, and \<open>(1:05] mixed\<close>,
  which holds neither \<open>[MM:SS]\<close> nor \<open>(MM:SS)\<close>, yields a segment too.
\<close>

theorem timestamp_position_counterexample:
  "parse_line ''hello [1:05] world'' =
     Some \<lparr>etext = ''hello world'', duration = Fin 0, offset = Fin 65\<rparr>
   \<and> parse_line ''(1:05] mixed'' =
     Some \<lparr>etext = ''mixed'', duration = Fin 0, offset = Fin 65\<rparr>"
  by code_simp

text \<open>
  Claim C4, as amended. For a plain-text payload (one without the marker
  \<open><transcript>\<close>) the result is made line by line, in order, of what each line yields. A
  time stamp is an opening \<open>[\<close> or \<open>(\<close>, one or two digits of minutes, a colon, two digits
  of seconds and a closing \<open>]\<close> or \<open>)\<close>, anywhere in the line. A line yields one segment
  for its first time stamp, with offset \<open>MM*60 + SS\<close>, duration 0 and as text the line
  without that stamp and the white space after it, trimmed; it yields nothing when that
  text is empty. For a leading stamp the text is the trimmed rest of the line;
  \<open>[1:05] hello there\<close> yields text \<open>hello there\<close> at offset 65; a line that holds no time
  stamp yields nothing.
\<close>

theorem parseTranscriptText_lines:
  "(\<not> str_includes ''<transcript>'' payload \<longrightarrow>
      parseTranscriptText P payload =
        concat (map (\<lambda>line. case parse_line line of None \<Rightarrow> [] | Some e \<Rightarrow> [e])
                  (split_on (CHR 0x0A) payload)))
   \<and> (timestamp_shape opn mm ss cls \<longrightarrow>
        parse_line ([opn] @ mm @ '':'' @ ss @ [cls] @ rest) =
          (if trim rest = [] then None
           else Some \<lparr>etext = trim rest, duration = Fin 0,
                      offset = Fin (of_nat (digits_val mm * 60 + digits_val ss))\<rparr>))
   \<and> (timestamp_shape opnx mmx ssx clsx
        \<and> \<not> (\<exists>b' o' m' s' c' r'. length b' < length before
               \<and> before @ [opnx] @ mmx @ '':'' @ ssx @ [clsx] @ restx
                   = b' @ [o'] @ m' @ '':'' @ s' @ [c'] @ r'
               \<and> timestamp_shape o' m' s' c') \<longrightarrow>
        parse_line (before @ [opnx] @ mmx @ '':'' @ ssx @ [clsx] @ restx) =
          (if trim (before @ dropWhile is_ws restx) = [] then None
           else Some \<lparr>etext = trim (before @ dropWhile is_ws restx), duration = Fin 0,
                      offset = Fin (of_nat (digits_val mmx * 60 + digits_val ssx))\<rparr>))
   \<and> parse_line ''[1:05] hello there'' =
        Some \<lparr>etext = ''hello there'', duration = Fin 0, offset = Fin 65\<rparr>
   \<and> parse_line ''[1:05]   '' = None
   \<and> (\<not> (\<exists>before opn' mm' ss' cls' rest'.
              line = before @ [opn'] @ mm' @ '':'' @ ss' @ [cls'] @ rest'
              \<and> timestamp_shape opn' mm' ss' cls') \<longrightarrow>
        parse_line line = None)"
proof (intro conjI impI)
  assume "\<not> str_includes ''<transcript>'' payload"
  then show "parseTranscriptText P payload =
        concat (map (\<lambda>line. case parse_line line of None \<Rightarrow> [] | Some e \<Rightarrow> [e])
                  (split_on (CHR 0x0A) payload))"
    by (simp add: parseTranscriptText_def parse_lines_concat)
next
  assume "timestamp_shape opn mm ss cls"
  then show "parse_line ([opn] @ mm @ '':'' @ ss @ [cls] @ rest) =
          (if trim rest = [] then None
           else Some \<lparr>etext = trim rest, duration = Fin 0,
                      offset = Fin (of_nat (digits_val mm * 60 + digits_val ss))\<rparr>)"
    by (rule parse_line_leading)
next
  assume a: "timestamp_shape opnx mmx ssx clsx
        \<and> \<not> (\<exists>b' o' m' s' c' r'. length b' < length before
               \<and> before @ [opnx] @ mmx @ '':'' @ ssx @ [clsx] @ restx
                   = b' @ [o'] @ m' @ '':'' @ s' @ [c'] @ r'
               \<and> timestamp_shape o' m' s' c')"
  from a [THEN conjunct1] a [THEN conjunct2]
  show "parse_line (before @ [opnx] @ mmx @ '':'' @ ssx @ [clsx] @ restx) =
          (if trim (before @ dropWhile is_ws restx) = [] then None
           else Some \<lparr>etext = trim (before @ dropWhile is_ws restx), duration = Fin 0,
                      offset = Fin (of_nat (digits_val mmx * 60 + digits_val ssx))\<rparr>)"
    by (rule parse_line_first)
next
  show "parse_line ''[1:05] hello there'' =
        Some \<lparr>etext = ''hello there'', duration = Fin 0, offset = Fin 65\<rparr>"
    by code_simp
next
  show "parse_line ''[1:05]   '' = None" by code_simp
next
  assume "\<not> (\<exists>before opn' mm' ss' cls' rest'.
              line = before @ [opn'] @ mm' @ '':'' @ ss' @ [cls'] @ rest'
              \<and> timestamp_shape opn' mm' ss' cls')"
  then show "parse_line line = None" by (rule parse_line_no_timestamp)
qed

text \<open>
  The statement of C4, as amended, at a payload of two lines, one with a leading time
  stamp and one without any, and at a line whose time stamp is not leading.
\<close>

theorem parseTranscriptText_lines_witness:
  "\<not> str_includes ''<transcript>'' (''[1:05] hello there'' @ NL @ ''no stamp here'')
   \<and> timestamp_shape (CHR ''['') ''1'' ''05'' (CHR '']'')
   \<and> parseTranscriptText no_dom (''[1:05] hello there'' @ NL @ ''no stamp here'') =
        [\<lparr>etext = ''hello there'', duration = Fin 0, offset = Fin 65\<rparr>]
   \<and> parse_line ''[1:05] hello there'' =
        Some \<lparr>etext = ''hello there'', duration = Fin 0, offset = Fin 65\<rparr>
   \<and> parse_line (''hello '' @ [CHR ''[''] @ ''1'' @ '':'' @ ''05'' @ [CHR '']''] @ '' world'') =
        Some \<lparr>etext = ''hello world'', duration = Fin 0, offset = Fin 65\<rparr>
   \<and> parse_line ''no stamp here'' = None"
proof -
  have h1: "\<not> str_includes ''<transcript>'' (''[1:05] hello there'' @ NL @ ''no stamp here'')"
    by code_simp
  have h2: "timestamp_shape (CHR ''['') ''1'' ''05'' (CHR '']'')"
    by (simp add: timestamp_shape_def is_open_def is_close_def is_digit_def)
  have sp: "split_on (CHR 0x0A) (''[1:05] hello there'' @ NL @ ''no stamp here'')
            = [''[1:05] hello there'', ''no stamp here'']"
    by code_simp
  have tr: "trim '' hello there'' = ''hello there''"
    "trim (''hello '' @ dropWhile is_ws '' world'') = ''hello world''"
    by code_simp+
  have dv: "digits_val ''1'' * 60 + digits_val ''05'' = 65" by code_simp
  note t = parseTranscriptText_lines [where payload = "''[1:05] hello there'' @ NL @ ''no stamp here''"
      and P = no_dom and opn = "CHR ''[''" and mm = "''1''" and ss = "''05''" and cls = "CHR '']''"
      and rest = "'' hello there''" and line = "''no stamp here''"
      and opnx = "CHR ''[''" and mmx = "''1''" and ssx = "''05''" and clsx = "CHR '']''"
      and before = "''hello ''" and restx = "'' world''"]
  note c1 = t [THEN conjunct1, THEN mp, OF h1]
  note c2 = t [THEN conjunct2, THEN conjunct1, THEN mp, OF h2]
  note c3 = t [THEN conjunct2, THEN conjunct2, THEN conjunct1, THEN mp,
      OF conjI [OF h2 first_stamp_example]]
  note c6 = t [THEN conjunct2, THEN conjunct2, THEN conjunct2, THEN conjunct2, THEN conjunct2,
      THEN mp, OF no_timestamp_example]
  from c2 have p1: "parse_line ''[1:05] hello there'' =
        Some \<lparr>etext = ''hello there'', duration = Fin 0, offset = Fin 65\<rparr>"
    by (simp only: tr dv) simp
  from c3 have p3:
    "parse_line (''hello '' @ [CHR ''[''] @ ''1'' @ '':'' @ ''05'' @ [CHR '']''] @ '' world'') =
        Some \<lparr>etext = ''hello world'', duration = Fin 0, offset = Fin 65\<rparr>"
    by (simp only: tr dv) simp
  from c1 have p0: "parseTranscriptText no_dom (''[1:05] hello there'' @ NL @ ''no stamp here'') =
        [\<lparr>etext = ''hello there'', duration = Fin 0, offset = Fin 65\<rparr>]"
    by (simp only: sp) (simp add: p1 c6)
  from h1 h2 p0 p1 p3 c6 show ?thesis by (intro conjI)
qed

text \<open>
  Claim C5. On the setup screen, submitting two credential strings leads to the search
  screen exactly when both are non-empty after trimming. Then both trimmed values are in
  the local storage and in the controller's keys, and a controller that starts from that
  storage reads them back and starts on the search screen. Otherwise the only change is
  the validation message: the screen is still setup and the storage is as it was.
\<close>

theorem setup_submit:
  "currentView s = Setup \<longrightarrow>
     (currentView (handleSubmit y g s) = Search \<longleftrightarrow> trim y \<noteq> [] \<and> trim g \<noteq> [])
     \<and> (trim y \<noteq> [] \<and> trim g \<noteq> [] \<longrightarrow>
          localStorage (handleSubmit y g s) ''youtube_api_key'' = Some (trim y)
          \<and> localStorage (handleSubmit y g s) ''gemini_api_key'' = Some (trim g)
          \<and> apiKeys (handleSubmit y g s) = Some (trim y, trim g)
          \<and> apiKeys (app_start (localStorage (handleSubmit y g s))) = Some (trim y, trim g)
          \<and> currentView (app_start (localStorage (handleSubmit y g s))) = Search)
     \<and> (trim y = [] \<or> trim g = [] \<longrightarrow>
          handleSubmit y g s = s\<lparr>toasts := toasts s @ [missing_keys]\<rparr>
          \<and> currentView (handleSubmit y g s) = Setup
          \<and> localStorage (handleSubmit y g s) = localStorage s)"
  by (auto simp: handleSubmit_def handleKeysSet_def app_start_def or_default_def Let_def)

text \<open>
  The statement of C5 at the submissions \<open>yt123\<close> / \<open>gm456\<close> and empty / empty, on a fresh
  controller.
\<close>

theorem setup_submit_witness:
  "currentView (app_start Map.empty) = Setup
   \<and> trim ''yt123'' \<noteq> [] \<and> trim ''gm456'' \<noteq> []
   \<and> currentView (handleSubmit ''yt123'' ''gm456'' (app_start Map.empty)) = Search
   \<and> localStorage (handleSubmit ''yt123'' ''gm456'' (app_start Map.empty)) ''youtube_api_key''
        = Some ''yt123''
   \<and> localStorage (handleSubmit ''yt123'' ''gm456'' (app_start Map.empty)) ''gemini_api_key''
        = Some ''gm456''
   \<and> trim [] = []
   \<and> currentView (handleSubmit [] [] (app_start Map.empty)) = Setup
   \<and> toasts (handleSubmit [] [] (app_start Map.empty)) = [missing_keys]
   \<and> localStorage (handleSubmit [] [] (app_start Map.empty)) = Map.empty"
proof -
  have h0: "currentView (app_start Map.empty) = Setup"
    by (simp add: app_start_def or_default_def)
  have h1: "trim ''yt123'' = ''yt123''" "trim ''gm456'' = ''gm456''" "trim [] = []"
    by (simp_all add: trim_def is_ws_def)
  have h2: "toasts (app_start Map.empty) = []" "localStorage (app_start Map.empty) = Map.empty"
    by (simp_all add: app_start_def or_default_def)
  note a = setup_submit [of "app_start Map.empty" "''yt123''" "''gm456''"]
  note b = setup_submit [of "app_start Map.empty" "[]" "[]"]
  from a b h0 h1 h2 show ?thesis by simp
qed

text \<open>
  Claim C6. For every non-empty transcript, in particular every one that the XML parser
  produces, the exported notes are a header that does not depend on the transcript, the
  title line of the transcript section, then one line \<open>[formatTime(offset)] text\<close> for each
  segment in sequence order, then the footer.
\<close>

theorem note_lines_are_formatTime:
  "\<exists>header. \<forall>t. t \<noteq> [] \<longrightarrow>
      createNoteContent video notes t currentDate =
        header @ ''VIDEO TRANSCRIPT:'' @ NL
        @ concat (map (\<lambda>e. ''['' @ formatTime (offset e) @ ''] '' @ etext e @ NL) t)
        @ NL @ rule_line @ NL @ ''Generated by PrivateTube AI''"
proof -
  define c0 where "c0 = ''NOTES ON YOUTUBE VIDEO'' @ NL @ rule_line @ NL @ NL
            @ ''Video Title: '' @ title video @ NL
            @ ''Video URL: '' @ (''https://www.youtube.com/watch?v='' @ videoId video) @ NL
            @ ''Date Notes Taken: '' @ currentDate @ NL @ NL
            @ rule_line @ NL @ NL"
  define c1 where "c1 = (if trim notes \<noteq> []
            then c0 @ ''YOUR NOTES:'' @ NL @ notes @ NL @ NL @ rule_line @ NL @ NL
            else c0)"
  have "createNoteContent video notes t currentDate =
        c1 @ ''VIDEO TRANSCRIPT:'' @ NL
        @ concat (map (\<lambda>e. ''['' @ formatTime (offset e) @ ''] '' @ etext e @ NL) t)
        @ NL @ rule_line @ NL @ ''Generated by PrivateTube AI''" if "t \<noteq> []" for t
    unfolding createNoteContent_def Let_def c1_def [symmetric] c0_def [symmetric]
    using that
    by (simp only: foldl_append_entry length_greater_0_conv not_False_eq_True if_True append_assoc)
  then show ?thesis by blast
qed

text \<open>
  The statement of C6 at a transcript that the XML parser produces from two elements.
\<close>

theorem note_lines_are_formatTime_witness:
  "parseTranscriptXML unordered_dom unordered_xml \<noteq> []
   \<and> (\<exists>header.
        createNoteContent video_A ''my notes'' (parseTranscriptXML unordered_dom unordered_xml)
          ''today'' =
        header @ ''VIDEO TRANSCRIPT:'' @ NL @ ''[0:05] b'' @ NL @ ''[0:03] a'' @ NL
        @ NL @ rule_line @ NL @ ''Generated by PrivateTube AI'')"
proof -
  have t: "parseTranscriptXML unordered_dom unordered_xml =
     [\<lparr>etext = ''b'', duration = Fin 1, offset = Fin 5\<rparr>,
      \<lparr>etext = ''a'', duration = Fin 1, offset = Fin 3\<rparr>]"
    by code_simp
  have f: "formatTime (Fin 5) = ''0:05''" "formatTime (Fin 3) = ''0:03''"
    by code_simp+
  from note_lines_are_formatTime [of video_A "''my notes''" "''today''"]
  obtain header where h: "\<forall>t. t \<noteq> [] \<longrightarrow>
      createNoteContent video_A ''my notes'' t ''today'' =
        header @ ''VIDEO TRANSCRIPT:'' @ NL
        @ concat (map (\<lambda>e. ''['' @ formatTime (offset e) @ ''] '' @ etext e @ NL) t)
        @ NL @ rule_line @ NL @ ''Generated by PrivateTube AI''"
    by blast
  have ne: "parseTranscriptXML unordered_dom unordered_xml \<noteq> []"
    unfolding t by simp
  from h ne have "createNoteContent video_A ''my notes''
        (parseTranscriptXML unordered_dom unordered_xml) ''today'' =
      header @ ''VIDEO TRANSCRIPT:'' @ NL
      @ concat (map (\<lambda>e. ''['' @ formatTime (offset e) @ ''] '' @ etext e @ NL)
          (parseTranscriptXML unordered_dom unordered_xml))
      @ NL @ rule_line @ NL @ ''Generated by PrivateTube AI''"
    by blast
  also have "concat (map (\<lambda>e. ''['' @ formatTime (offset e) @ ''] '' @ etext e @ NL)
          (parseTranscriptXML unordered_dom unordered_xml)) = ''[0:05] b'' @ NL @ ''[0:03] a'' @ NL"
    unfolding t by (simp add: f)
  finally show ?thesis using ne by (simp only: append_assoc) blast
qed

text \<open>
  Claim C7. A chat turn sends at most one request, and the prompt of that request is
  built from the video, the transcript held and the trimmed question only: it does not
  depend on the messages of the chat. The context always starts with the title and the
  description; the segments' texts, joined by single spaces in sequence order, follow as
  the section \<open>Video Transcript\<close> exactly when the transcript is non-empty.
\<close>

theorem prompt_contents:
  "(sent (sendMessage N L video now later st) = sent st
     \<or> (\<exists>key. sent (sendMessage N L video now later st) =
           sent st @ [\<lparr>url = gemini_url key,
                       prompt_text = build_prompt (build_context video (currentTranscript st))
                                       (trim (input st))\<rparr>]))
   \<and> (trim (input st) \<noteq> [] \<and> \<not> c_isLoading st \<and> L ''gemini_api_key'' = Some k \<and> trim k \<noteq> []
        \<longrightarrow> sent (sendMessage N L video now later st) =
           sent st @ [\<lparr>url = gemini_url k,
                       prompt_text = build_prompt (build_context video (currentTranscript st))
                                       (trim (input st))\<rparr>])
   \<and> sent (sendMessage N L video now later (st\<lparr>messages := ms\<rparr>)) =
       sent (sendMessage N L video now later st)
   \<and> build_prompt c q =
       ''You are an AI assistant helping someone understand a YouTube video. '' @ NL @ NL
       @ ''Context:'' @ NL @ c @ NL @ NL @ ''User Question: '' @ q @ NL @ NL
       @ ''Please provide a helpful, accurate response based on the video content. If the question is about specific details and you have transcript access, use that information. If not, answer based on the title and description. Be conversational and helpful.''
   \<and> build_context video t =
       ''YouTube Video: '' @ DQ @ title video @ DQ @ NL @ ''Description: '' @ description video
       @ (if t = [] then [] else NL @ NL @ ''Video Transcript: '' @ join '' '' (map etext t))
   \<and> (build_context video t \<noteq> base_context video \<longleftrightarrow> t \<noteq> [])"
proof (intro conjI impI)
  show "sent (sendMessage N L video now later st) = sent st
     \<or> (\<exists>key. sent (sendMessage N L video now later st) =
           sent st @ [\<lparr>url = gemini_url key,
                       prompt_text = build_prompt (build_context video (currentTranscript st))
                                       (trim (input st))\<rparr>])"
    by (auto simp: sendMessage_sent send_request_reqs split: option.splits)
next
  assume "trim (input st) \<noteq> [] \<and> \<not> c_isLoading st \<and> L ''gemini_api_key'' = Some k \<and> trim k \<noteq> []"
  moreover from this have "k \<noteq> []" by (auto simp: trim_def)
  ultimately show "sent (sendMessage N L video now later st) =
           sent st @ [\<lparr>url = gemini_url k,
                       prompt_text = build_prompt (build_context video (currentTranscript st))
                                       (trim (input st))\<rparr>]"
    by (simp add: sendMessage_sent send_request_reqs)
next
  show "sent (sendMessage N L video now later (st\<lparr>messages := ms\<rparr>)) =
       sent (sendMessage N L video now later st)"
    by (simp add: sendMessage_sent)
next
  show "build_prompt c q =
       ''You are an AI assistant helping someone understand a YouTube video. '' @ NL @ NL
       @ ''Context:'' @ NL @ c @ NL @ NL @ ''User Question: '' @ q @ NL @ NL
       @ ''Please provide a helpful, accurate response based on the video content. If the question is about specific details and you have transcript access, use that information. If not, answer based on the title and description. Be conversational and helpful.''"
    by (simp only: build_prompt_def)
next
  show "build_context video t =
       ''YouTube Video: '' @ DQ @ title video @ DQ @ NL @ ''Description: '' @ description video
       @ (if t = [] then [] else NL @ NL @ ''Video Transcript: '' @ join '' '' (map etext t))"
    by (simp only: build_context_eq base_context_def append_assoc)
next
  show "build_context video t \<noteq> base_context video \<longleftrightarrow> t \<noteq> []"
    by (simp add: build_context_eq)
qed

text \<open>
  The statement of C7 at a chat screen that holds a transcript of two segments.
\<close>

theorem prompt_contents_witness:
  "trim (input asking) \<noteq> [] \<and> \<not> c_isLoading asking
   \<and> example_storage ''gemini_api_key'' = Some ''gm456'' \<and> trim ''gm456'' \<noteq> []
   \<and> map prompt_text (sent (sendMessage example_net example_storage video_A 1 2 asking)) =
       [build_prompt
          (''YouTube Video: '' @ DQ @ ''Alpha'' @ DQ @ NL @ ''Description: first''
           @ NL @ NL @ ''Video Transcript: hi there'')
          ''what is said?'']"
proof -
  have h: "trim (input asking) = ''what is said?''" "\<not> c_isLoading asking" "sent asking = []"
    "currentTranscript asking = [\<lparr>etext = ''hi'', duration = Fin 0, offset = Fin 1\<rparr>,
                          \<lparr>etext = ''there'', duration = Fin 0, offset = Fin 2\<rparr>]"
    by (simp_all add: asking_def chat_mount_def trim_def is_ws_def)
  have k: "example_storage ''gemini_api_key'' = Some ''gm456''" "trim ''gm456'' = ''gm456''"
    by (simp_all add: example_storage_def trim_def is_ws_def)
  have c: "build_context video_A [\<lparr>etext = ''hi'', duration = Fin 0, offset = Fin 1\<rparr>,
                          \<lparr>etext = ''there'', duration = Fin 0, offset = Fin 2\<rparr>] =
      ''YouTube Video: '' @ DQ @ ''Alpha'' @ DQ @ NL @ ''Description: first''
           @ NL @ NL @ ''Video Transcript: hi there''"
    by (simp add: build_context_def base_context_def video_A_def)
  note t = prompt_contents [of example_net example_storage video_A 1 2 asking "''gm456''"]
  from t h k c show ?thesis by simp
qed

text \<open>
  Claim C8 as it was stated fails: a payload whose fragments are not ordered by time
  stamp gives a transcript whose offsets decrease, from the plain-text parser as from the
  XML parser.
\<close>

theorem offsets_not_sorted_counterexample:
  "parseTranscriptText no_dom unordered_text =
     [\<lparr>etext = ''b'', duration = Fin 0, offset = Fin 65\<rparr>,
      \<lparr>etext = ''a'', duration = Fin 0, offset = Fin 3\<rparr>]
   \<and> \<not> nondecreasing (parseTranscriptText no_dom unordered_text)
   \<and> \<not> nondecreasing (parseTranscriptXML unordered_dom unordered_xml)"
proof -
  have a: "parseTranscriptText no_dom unordered_text =
     [\<lparr>etext = ''b'', duration = Fin 0, offset = Fin 65\<rparr>,
      \<lparr>etext = ''a'', duration = Fin 0, offset = Fin 3\<rparr>]"
    by code_simp
  have b: "parseTranscriptXML unordered_dom unordered_xml =
     [\<lparr>etext = ''b'', duration = Fin 1, offset = Fin 5\<rparr>,
      \<lparr>etext = ''a'', duration = Fin 1, offset = Fin 3\<rparr>]"
    by code_simp
  show ?thesis unfolding a b by (simp add: js_le_def)
qed

text \<open>
  Claim C8, as amended. The segments are in the order in which their fragments appear in
  the source payload, and the parsers do not sort them: the result for a plain-text
  payload of two parts joined by a line break is the result for the first part followed by
  the result for the second, and the result for an XML document is made of the results for
  the root's children, in their order. The offsets of an XML transcript are the \<open>start\<close>
  values of its text elements, in document order; the offsets of a plain-text transcript
  are the time stamps of the lines that yield a segment, in line order. So the offsets
  never decrease exactly when those values never decrease, and in particular whenever the
  time stamps of all the stamped lines of a plain-text payload never decrease.
\<close>

theorem transcript_order_follows_source:
  "(\<not> str_includes ''<transcript>'' (a @ NL @ b) \<longrightarrow>
      parseTranscriptText P (a @ NL @ b) = parseTranscriptText P a @ parseTranscriptText P b)
   \<and> (Q x = Element n attrs kids \<and> n \<noteq> ''text'' \<longrightarrow>
        parseTranscriptXML Q x =
          concat (map (\<lambda>k. map entry_of_element (getElementsByTagName ''text'' k)) kids))
   \<and> map offset (parseTranscriptXML Q x) =
        map (\<lambda>el. parseFloat (or_default (getAttribute ''start'' el) ''0''))
          (getElementsByTagName ''text'' (Q x))
   \<and> nondecreasing (parseTranscriptXML Q x) =
        ascending (map (\<lambda>el. parseFloat (or_default (getAttribute ''start'' el) ''0''))
          (getElementsByTagName ''text'' (Q x)))
   \<and> (\<not> str_includes ''<transcript>'' payload \<longrightarrow>
        map offset (parseTranscriptText P payload) =
          List.map_filter (\<lambda>l. map_option offset (parse_line l)) (split_on (CHR 0x0A) payload))
   \<and> (\<not> str_includes ''<transcript>'' payload \<longrightarrow>
        nondecreasing (parseTranscriptText P payload) =
          ascending (List.map_filter (\<lambda>l. map_option offset (parse_line l))
            (split_on (CHR 0x0A) payload)))
   \<and> (parse_line line = Some e \<longrightarrow> line_stamp line = Some (offset e))
   \<and> (\<not> str_includes ''<transcript>'' payload
        \<and> ascending (List.map_filter line_stamp (split_on (CHR 0x0A) payload)) \<longrightarrow>
        nondecreasing (parseTranscriptText P payload))"
proof (intro conjI impI)
  assume h: "\<not> str_includes ''<transcript>'' (a @ NL @ b)"
  then have "\<not> str_includes ''<transcript>'' a" "\<not> str_includes ''<transcript>'' b"
    using str_includes_append1 [of "''<transcript>''" a "NL @ b"]
      str_includes_append2 [of "''<transcript>''" b "a @ NL"] by auto
  with h show "parseTranscriptText P (a @ NL @ b) = parseTranscriptText P a @ parseTranscriptText P b"
    by (simp add: parseTranscriptText_def split_on_append parse_lines_append)
next
  assume "Q x = Element n attrs kids \<and> n \<noteq> ''text''"
  then show "parseTranscriptXML Q x =
          concat (map (\<lambda>k. map entry_of_element (getElementsByTagName ''text'' k)) kids)"
    by (simp add: parseTranscriptXML_def map_concat comp_def)
next
  show "map offset (parseTranscriptXML Q x) =
        map (\<lambda>el. parseFloat (or_default (getAttribute ''start'' el) ''0''))
          (getElementsByTagName ''text'' (Q x))"
    by (rule xml_offsets)
next
  show "nondecreasing (parseTranscriptXML Q x) =
        ascending (map (\<lambda>el. parseFloat (or_default (getAttribute ''start'' el) ''0''))
          (getElementsByTagName ''text'' (Q x)))"
    by (simp only: nondecreasing_ascending xml_offsets)
next
  assume "\<not> str_includes ''<transcript>'' payload"
  then show "map offset (parseTranscriptText P payload) =
          List.map_filter (\<lambda>l. map_option offset (parse_line l)) (split_on (CHR 0x0A) payload)"
    by (simp add: parseTranscriptText_def parse_lines_offsets)
next
  assume "\<not> str_includes ''<transcript>'' payload"
  then show "nondecreasing (parseTranscriptText P payload) =
          ascending (List.map_filter (\<lambda>l. map_option offset (parse_line l))
            (split_on (CHR 0x0A) payload))"
    by (simp add: parseTranscriptText_def nondecreasing_ascending parse_lines_offsets)
next
  assume "parse_line line = Some e"
  then show "line_stamp line = Some (offset e)" by (rule parse_line_stamp)
next
  assume a: "\<not> str_includes ''<transcript>'' payload
        \<and> ascending (List.map_filter line_stamp (split_on (CHR 0x0A) payload))"
  then have "sorted_wrt js_le (map offset (parse_lines (split_on (CHR 0x0A) payload)))"
    by (intro parse_lines_sorted) (simp add: ascending_sorted_wrt)
  with a show "nondecreasing (parseTranscriptText P payload)"
    by (simp add: parseTranscriptText_def nondecreasing_ascending ascending_sorted_wrt)
qed

text \<open>
  The statement of C8, as amended, at the two unordered payloads, at a payload whose
  out-of-order stamp is on a line without text, and at a payload whose stamps are in order.
\<close>

theorem transcript_order_follows_source_witness:
  "\<not> str_includes ''<transcript>'' (''[1:05] b'' @ NL @ ''[0:03] a'')
   \<and> parseTranscriptText no_dom (''[1:05] b'' @ NL @ ''[0:03] a'') =
       parseTranscriptText no_dom ''[1:05] b'' @ parseTranscriptText no_dom ''[0:03] a''
   \<and> unordered_dom unordered_xml =
       Element ''transcript'' []
         [Element ''text'' [(''start'', ''5''), (''dur'', ''1'')] [TextNode ''b''],
          Element ''text'' [(''start'', ''3''), (''dur'', ''1'')] [TextNode ''a'']]
   \<and> ''transcript'' \<noteq> ''text''
   \<and> parseTranscriptXML unordered_dom unordered_xml =
       concat (map (\<lambda>k. map entry_of_element (getElementsByTagName ''text'' k))
         [Element ''text'' [(''start'', ''5''), (''dur'', ''1'')] [TextNode ''b''],
          Element ''text'' [(''start'', ''3''), (''dur'', ''1'')] [TextNode ''a'']])
   \<and> map offset (parseTranscriptXML unordered_dom unordered_xml) = [Fin 5, Fin 3]
   \<and> \<not> nondecreasing (parseTranscriptXML unordered_dom unordered_xml)
   \<and> \<not> str_includes ''<transcript>'' gap_text
   \<and> map offset (parseTranscriptText no_dom gap_text) = [Fin 65, Fin 120]
   \<and> nondecreasing (parseTranscriptText no_dom gap_text)
   \<and> parse_line ''[1:05] b'' = Some \<lparr>etext = ''b'', duration = Fin 0, offset = Fin 65\<rparr>
   \<and> line_stamp ''[1:05] b'' = Some (Fin 65)
   \<and> \<not> str_includes ''<transcript>'' ordered_text
   \<and> ascending (List.map_filter line_stamp (split_on (CHR 0x0A) ordered_text))
   \<and> nondecreasing (parseTranscriptText no_dom ordered_text)"
proof -
  have h1: "\<not> str_includes ''<transcript>'' (''[1:05] b'' @ NL @ ''[0:03] a'')"
    by code_simp
  have h2: "unordered_dom unordered_xml =
       Element ''transcript'' []
         [Element ''text'' [(''start'', ''5''), (''dur'', ''1'')] [TextNode ''b''],
          Element ''text'' [(''start'', ''3''), (''dur'', ''1'')] [TextNode ''a'']]"
    by (simp add: unordered_dom_def)
  have h3: "''transcript'' \<noteq> ''text''" by simp
  have hg: "\<not> str_includes ''<transcript>'' gap_text" by code_simp
  have ho: "\<not> str_includes ''<transcript>'' ordered_text" by code_simp
  have asc: "ascending (List.map_filter line_stamp (split_on (CHR 0x0A) ordered_text))"
    by code_simp
  have pl: "parse_line ''[1:05] b'' = Some \<lparr>etext = ''b'', duration = Fin 0, offset = Fin 65\<rparr>"
    by code_simp
  have xs: "map (\<lambda>el. parseFloat (or_default (getAttribute ''start'' el) ''0''))
          (getElementsByTagName ''text'' (unordered_dom unordered_xml)) = [Fin 5, Fin 3]"
    by code_simp
  have mf: "List.map_filter (\<lambda>l. map_option offset (parse_line l)) (split_on (CHR 0x0A) gap_text)
          = [Fin 65, Fin 120]"
    by code_simp
  note t = transcript_order_follows_source [where a = "''[1:05] b''" and b = "''[0:03] a''"
      and P = no_dom and Q = unordered_dom and x = unordered_xml and n = "''transcript''"
      and attrs = "[]"
      and kids = "[Element ''text'' [(''start'', ''5''), (''dur'', ''1'')] [TextNode ''b''],
        Element ''text'' [(''start'', ''3''), (''dur'', ''1'')] [TextNode ''a'']]"
      and payload = gap_text and line = "''[1:05] b''"
      and e = "\<lparr>etext = ''b'', duration = Fin 0, offset = Fin 65\<rparr>"]
  note u = transcript_order_follows_source [where P = no_dom and payload = ordered_text]
  note c1 = t [THEN conjunct1, THEN mp, OF h1]
  note c2 = t [THEN conjunct2, THEN conjunct1, THEN mp, OF conjI [OF h2 h3]]
  note c3 = t [THEN conjunct2, THEN conjunct2, THEN conjunct1]
  note c4 = t [THEN conjunct2, THEN conjunct2, THEN conjunct2, THEN conjunct1]
  note c5 = t [THEN conjunct2, THEN conjunct2, THEN conjunct2, THEN conjunct2, THEN conjunct1,
      THEN mp, OF hg]
  note c6 = t [THEN conjunct2, THEN conjunct2, THEN conjunct2, THEN conjunct2, THEN conjunct2,
      THEN conjunct1, THEN mp, OF hg]
  note c7 = t [THEN conjunct2, THEN conjunct2, THEN conjunct2, THEN conjunct2, THEN conjunct2,
      THEN conjunct2, THEN conjunct1, THEN mp, OF pl]
  note c8 = u [THEN conjunct2, THEN conjunct2, THEN conjunct2, THEN conjunct2, THEN conjunct2,
      THEN conjunct2, THEN conjunct2, THEN mp, OF conjI [OF ho asc]]
  from c3 have r3: "map offset (parseTranscriptXML unordered_dom unordered_xml) = [Fin 5, Fin 3]"
    by (simp only: xs)
  from c4 have r4: "\<not> nondecreasing (parseTranscriptXML unordered_dom unordered_xml)"
    by (simp only: xs) (simp add: js_le_def)
  from c5 have r5: "map offset (parseTranscriptText no_dom gap_text) = [Fin 65, Fin 120]"
    by (simp only: mf)
  from c6 have r6: "nondecreasing (parseTranscriptText no_dom gap_text)"
    by (simp only: mf) (simp add: js_le_def)
  from c7 have r7: "line_stamp ''[1:05] b'' = Some (Fin 65)" by simp
  from h1 c1 h2 h3 c2 r3 r4 hg r5 r6 pl r7 ho asc c8 show ?thesis by (intro conjI)
qed

text \<open>
  Claim C9 as it was stated fails. The body of a non-2xx answer is read before the status
  is looked at; when the endpoint answers 429 and that read fails with
  \<open>Failed to fetch\<close>, the notification is the network error message, not the message for
  429.
\<close>

theorem unreadable_body_counterexample:
  "generateContent unreadable_net ''gm456''
     (build_prompt (build_context video_A (currentTranscript asking)) (trim (input asking))) =
     Resolved \<lparr>reply_status = 429, reply_text = Rejected ''Failed to fetch'',
               reply_json = Rejected ''Failed to fetch''\<rparr>
   \<and> toasts (sendMessage unreadable_net example_storage video_A 1 2 asking) =
       [\<lparr>toast_title = ''Chat Error'',
         toast_description = ''Network error. Please check your internet connection.'',
         destructive = True\<rparr>]"
proof -
  have "toasts (sendMessage unreadable_net example_storage video_A 1 2 asking) =
       [\<lparr>toast_title = ''Chat Error'',
         toast_description = ''Network error. Please check your internet connection.'',
         destructive = True\<rparr>]"
    by code_simp
  then show ?thesis by (simp add: unreadable_net_def generate_429_unreadable_def)
qed

text \<open>
  Claim C9, as amended. When the generative endpoint answers with a status that is not
  2xx and the body of the answer can be read, the chat shows an error notification whose
  description is the message for that status, followed by the status itself. The messages
  for 400, 401, 403, 429, 500 and for any other status are six different texts. When the
  body of such an answer cannot be read, the description comes from the error of the read
  instead: the network error message when that error mentions \<open>fetch\<close> without
  \<open>API key\<close>, the error's own message otherwise.
\<close>

theorem chat_error_by_status:
  "(trim (input st) \<noteq> [] \<and> \<not> c_isLoading st
      \<and> L ''gemini_api_key'' = Some key \<and> trim key \<noteq> []
      \<and> generateContent N key
           (build_prompt (build_context video (currentTranscript st)) (trim (input st)))
          = Resolved r
      \<and> \<not> (200 \<le> reply_status r \<and> reply_status r \<le> 299)
      \<and> reply_text r = Resolved errorText
    \<longrightarrow> toasts (sendMessage N L video now later st) =
          toasts st @
            [\<lparr>toast_title = ''Chat Error'',
              toast_description =
                status_message (reply_status r) @ '' (Status: '' @ dec (reply_status r) @ '')'',
              destructive = True\<rparr>])
   \<and> (trim (input st) \<noteq> [] \<and> \<not> c_isLoading st
      \<and> L ''gemini_api_key'' = Some key \<and> trim key \<noteq> []
      \<and> generateContent N key
           (build_prompt (build_context video (currentTranscript st)) (trim (input st)))
          = Resolved r
      \<and> \<not> (200 \<le> reply_status r \<and> reply_status r \<le> 299)
      \<and> reply_text r = Rejected err
    \<longrightarrow> toasts (sendMessage N L video now later st) =
          toasts st @
            [\<lparr>toast_title = ''Chat Error'', toast_description = shown_error err,
              destructive = True\<rparr>])
   \<and> shown_error err =
       (if str_includes ''API key'' err then err
        else if str_includes ''fetch'' err
        then ''Network error. Please check your internet connection.''
        else err)
   \<and> status_message 400 = ''Invalid request to Gemini API. Please check your API key format.''
   \<and> status_message 401 = ''Unauthorized. Your Gemini API key is invalid or expired.''
   \<and> status_message 403 =
       ''Access denied. Your Gemini API key may not have the required permissions.''
   \<and> status_message 429 = ''Rate limit exceeded. Please wait a moment and try again.''
   \<and> status_message 500 = ''Gemini API server error. Please try again later.''
   \<and> (n \<noteq> 400 \<and> n \<noteq> 401 \<and> n \<noteq> 403 \<and> n \<noteq> 429 \<and> n \<noteq> 500
        \<longrightarrow> status_message n = ''Failed to get AI response'')
   \<and> distinct [status_message 400, status_message 401, status_message 403,
               status_message 429, status_message 500, ''Failed to get AI response'']"
proof (intro conjI impI)
  assume a: "trim (input st) \<noteq> [] \<and> \<not> c_isLoading st
      \<and> L ''gemini_api_key'' = Some key \<and> trim key \<noteq> []
      \<and> generateContent N key
           (build_prompt (build_context video (currentTranscript st)) (trim (input st)))
          = Resolved r
      \<and> \<not> (200 \<le> reply_status r \<and> reply_status r \<le> 299)
      \<and> reply_text r = Resolved errorText"
  then have k: "key \<noteq> []" by (auto simp: trim_def)
  from a k have "send_request N L video (currentTranscript st) (input st) =
      ([\<lparr>url = gemini_url key,
         prompt_text = build_prompt (build_context video (currentTranscript st))
                         (trim (input st))\<rparr>],
       Inl (status_error (reply_status r)))"
    by (simp add: send_request_def Let_def)
  with a show "toasts (sendMessage N L video now later st) =
          toasts st @
            [\<lparr>toast_title = ''Chat Error'',
              toast_description =
                status_message (reply_status r) @ '' (Status: '' @ dec (reply_status r) @ '')'',
              destructive = True\<rparr>]"
    by (simp add: sendMessage_def Let_def shown_status_error)
       (simp add: status_error_def)
next
  assume a: "trim (input st) \<noteq> [] \<and> \<not> c_isLoading st
      \<and> L ''gemini_api_key'' = Some key \<and> trim key \<noteq> []
      \<and> generateContent N key
           (build_prompt (build_context video (currentTranscript st)) (trim (input st)))
          = Resolved r
      \<and> \<not> (200 \<le> reply_status r \<and> reply_status r \<le> 299)
      \<and> reply_text r = Rejected err"
  then have k: "key \<noteq> []" by (auto simp: trim_def)
  from a k have "send_request N L video (currentTranscript st) (input st) =
      ([\<lparr>url = gemini_url key,
         prompt_text = build_prompt (build_context video (currentTranscript st))
                         (trim (input st))\<rparr>],
       Inl err)"
    by (simp add: send_request_def Let_def)
  with a show "toasts (sendMessage N L video now later st) =
          toasts st @
            [\<lparr>toast_title = ''Chat Error'', toast_description = shown_error err,
              destructive = True\<rparr>]"
    by (simp add: sendMessage_def Let_def)
next
  show "shown_error err =
       (if str_includes ''API key'' err then err
        else if str_includes ''fetch'' err
        then ''Network error. Please check your internet connection.''
        else err)"
    by (simp only: shown_error_def)
next
  assume "n \<noteq> 400 \<and> n \<noteq> 401 \<and> n \<noteq> 403 \<and> n \<noteq> 429 \<and> n \<noteq> 500"
  then show "status_message n = ''Failed to get AI response''"
    by (simp add: status_message_def)
next
  show "distinct [status_message 400, status_message 401, status_message 403,
               status_message 429, status_message 500, ''Failed to get AI response'']"
    by (simp add: status_message_def)
qed (simp_all add: status_message_def)

text \<open>
  The statement of C9, as amended, at an answer with the status 429 whose body can be read,
  at one whose body cannot, and at the status 418.
\<close>

theorem chat_error_by_status_witness:
  "trim (input asking) \<noteq> [] \<and> \<not> c_isLoading asking
   \<and> example_storage ''gemini_api_key'' = Some ''gm456'' \<and> trim ''gm456'' \<noteq> []
   \<and> toasts (sendMessage example_net example_storage video_A 1 2 asking) =
       [\<lparr>toast_title = ''Chat Error'',
         toast_description =
           ''Rate limit exceeded. Please wait a moment and try again. (Status: 429)'',
         destructive = True\<rparr>]
   \<and> toasts (sendMessage unreadable_net example_storage video_A 1 2 asking) =
       [\<lparr>toast_title = ''Chat Error'',
         toast_description = ''Network error. Please check your internet connection.'',
         destructive = True\<rparr>]
   \<and> status_message 418 = ''Failed to get AI response''"
proof -
  have h: "trim (input asking) \<noteq> []" "\<not> c_isLoading asking" "toasts asking = []"
    by (simp_all add: asking_def chat_mount_def trim_def is_ws_def)
  have k: "example_storage ''gemini_api_key'' = Some ''gm456''" "trim ''gm456'' \<noteq> []"
    by (simp_all add: example_storage_def trim_def is_ws_def)
  have g: "generateContent example_net ''gm456'' p =
      Resolved \<lparr>reply_status = 429, reply_text = Resolved ''{}'', reply_json = Resolved None\<rparr>" for p
    by (simp add: example_net_def generate_429_def)
  have g2: "generateContent unreadable_net ''gm456'' p =
      Resolved \<lparr>reply_status = 429, reply_text = Rejected ''Failed to fetch'',
                reply_json = Rejected ''Failed to fetch''\<rparr>" for p
    by (simp add: unreadable_net_def generate_429_unreadable_def)
  have d: "dec 429 = ''429''" by code_simp
  have se: "shown_error ''Failed to fetch'' =
      ''Network error. Please check your internet connection.''" by code_simp
  note t = chat_error_by_status [where st = asking and L = example_storage and key = "''gm456''"
      and N = example_net and video = video_A
      and r = "\<lparr>reply_status = 429, reply_text = Resolved ''{}'', reply_json = Resolved None\<rparr>"
      and errorText = "''{}''" and now = 1 and later = 2 and n = 418]
  note u = chat_error_by_status [where st = asking and L = example_storage and key = "''gm456''"
      and N = unreadable_net and video = video_A
      and r = "\<lparr>reply_status = 429, reply_text = Rejected ''Failed to fetch'',
                reply_json = Rejected ''Failed to fetch''\<rparr>"
      and err = "''Failed to fetch''" and now = 1 and later = 2]
  from t h k g d have a:
    "toasts (sendMessage example_net example_storage video_A 1 2 asking) =
       [\<lparr>toast_title = ''Chat Error'',
         toast_description =
           ''Rate limit exceeded. Please wait a moment and try again. (Status: 429)'',
         destructive = True\<rparr>]"
    "status_message 418 = ''Failed to get AI response''"
    by simp_all
  from u [THEN conjunct2, THEN conjunct1] h k g2 se have b:
    "toasts (sendMessage unreadable_net example_storage video_A 1 2 asking) =
       [\<lparr>toast_title = ''Chat Error'',
         toast_description = ''Network error. Please check your internet connection.'',
         destructive = True\<rparr>]"
    by simp
  from h k a b show ?thesis by (intro conjI)
qed



end
